theory Spec2Isabelle
  imports Main "HOL-Library.Multiset"
begin

section \<open>Unicode text\<close>

text \<open>
  The module works on Python 2 \<^verbatim>\<open>unicode\<close> objects (\<^verbatim>\<open>unicode_literals\<close> is in force).
  A \<^verbatim>\<open>unicode\<close> object is a sequence of code points; iterating over it (\<^verbatim>\<open>for L in data\<close>)
  yields one-element strings. A code point is modelled by its number, a text by the list of
  its code points, and the one-element string \<^verbatim>\<open>L\<close> by \<open>[L]\<close>. All characters of the
  catalogue lie in the Basic Multilingual Plane, so code points and UTF-16 code units agree
  on them.
\<close>

type_synonym uchar = nat
type_synonym ustring = "uchar list"

definition ustr :: "string \<Rightarrow> ustring" where
  \<comment> \<open>an ASCII literal of the source, as code points\<close>
  "ustr s = map of_char s"

definition endswith :: "string \<Rightarrow> string \<Rightarrow> bool" where
  \<comment> \<open>\<^verbatim>\<open>s.endswith(suffix)\<close>\<close>
  "endswith s suf \<longleftrightarrow> length suf \<le> length s \<and> drop (length s - length suf) s = suf"

definition dict_get :: "('k \<rightharpoonup> 'v) \<Rightarrow> 'k \<Rightarrow> 'v \<Rightarrow> 'v" where
  \<comment> \<open>\<^verbatim>\<open>d.get(k, default)\<close>\<close>
  "dict_get d k dflt = (case d k of None \<Rightarrow> dflt | Some v \<Rightarrow> v)"

definition dict_of_pairs :: "('k \<times> 'v) list \<Rightarrow> ('k \<rightharpoonup> 'v)" where
  \<comment> \<open>the comprehension \<^verbatim>\<open>{k: v for (k, v) in pairs}\<close>: pairs are stored in turn, so a
      later pair replaces an earlier one with the same key\<close>
  "dict_of_pairs ps = fold (\<lambda>kv d. d(fst kv \<mapsto> snd kv)) ps Map.empty"


section \<open>Schemes and scheme maps\<close>

text \<open>
  \<^verbatim>\<open>class Scheme(dict)\<close>: a dictionary from group names to lists of characters (each a
  string, possibly of several code points), with the flag \<^verbatim>\<open>is_roman\<close>. The dictionary is
  kept as the list of its items in iteration order, which is the order
  \<^verbatim>\<open>for group in from_scheme\<close> visits them; the group names of a scheme are distinct.
  \<^verbatim>\<open>group in to_scheme\<close> and \<^verbatim>\<open>to_scheme[group]\<close> are \<open>map_of\<close> on that list.
\<close>

record Scheme =
  groups :: "(string \<times> ustring list) list"
  is_roman :: bool

record SchemeMap =
  marks :: "ustring \<rightharpoonup> ustring"
  virama :: "ustring \<rightharpoonup> ustring"
  consonants :: "ustring \<rightharpoonup> ustring"
  other :: "ustring \<rightharpoonup> ustring"
  from_roman :: bool
  to_roman :: bool

definition add_group :: "Scheme \<Rightarrow> string \<times> ustring list \<Rightarrow> SchemeMap \<Rightarrow> SchemeMap" where
  \<comment> \<open>one round of the loop of \<^verbatim>\<open>SchemeMap.__init__\<close>, for the item \<open>(group, from_scheme[group])\<close>\<close>
  "add_group to_scheme item sm =
     (case map_of (groups to_scheme) (fst item) of
        None \<Rightarrow> sm
      | Some to_chars \<Rightarrow>
          (let sub_map = dict_of_pairs (zip (snd item) to_chars) in
           if endswith (fst item) ''marks'' then sm\<lparr>marks := marks sm ++ sub_map\<rparr>
           else if fst item = ''virama'' then sm\<lparr>virama := sub_map\<rparr>
           else
             (let sm1 = sm\<lparr>other := other sm ++ sub_map\<rparr> in
              if endswith (fst item) ''consonants''
              then sm1\<lparr>consonants := consonants sm1 ++ sub_map\<rparr>
              else sm1)))"

definition SchemeMap_init :: "Scheme \<Rightarrow> Scheme \<Rightarrow> SchemeMap" where
  \<comment> \<open>\<^verbatim>\<open>SchemeMap(from_scheme, to_scheme)\<close>\<close>
  "SchemeMap_init from_scheme to_scheme =
     fold (add_group to_scheme) (groups from_scheme)
       \<lparr>marks = Map.empty, virama = Map.empty, consonants = Map.empty, other = Map.empty,
        from_roman = is_roman from_scheme, to_roman = is_roman to_scheme\<rparr>"


section \<open>The two conversions\<close>

definition roman :: "ustring \<Rightarrow> SchemeMap \<Rightarrow> ustring" where
  \<comment> \<open>\<^verbatim>\<open>_roman\<close>: \<^verbatim>\<open>buf = []\<close>, then \<^verbatim>\<open>return ''.join(buf)\<close>\<close>
  "roman data scheme_map = concat []"

text \<open>
  \<^verbatim>\<open>_brahmic\<close>: the state of the loop is the buffer \<^verbatim>\<open>buf\<close> (a list of strings, joined at
  the end) and the flag \<^verbatim>\<open>had_consonant\<close>.
\<close>

definition brahmic_step :: "SchemeMap \<Rightarrow> ustring list \<times> bool \<Rightarrow> uchar \<Rightarrow> ustring list \<times> bool" where
  "brahmic_step scheme_map st L =
     (let buf = fst st; had_consonant = snd st;
          buf' =
            (case marks scheme_map [L] of
               Some m \<Rightarrow> buf @ [m]
             | None \<Rightarrow>
                 (case virama scheme_map [L] of
                    Some v \<Rightarrow> buf @ [v]
                  | None \<Rightarrow>
                      (if had_consonant then buf @ [ustr ''a''] else buf)
                        @ [dict_get (other scheme_map) [L] [L]]))
      in (buf', to_roman scheme_map \<and> consonants scheme_map [L] \<noteq> None))"

fun brahmic_loop :: "SchemeMap \<Rightarrow> ustring \<Rightarrow> ustring list \<times> bool \<Rightarrow> ustring list \<times> bool" where
  "brahmic_loop scheme_map [] st = st"
| "brahmic_loop scheme_map (L # data) st =
     brahmic_loop scheme_map data (brahmic_step scheme_map st L)"

definition brahmic :: "ustring \<Rightarrow> SchemeMap \<Rightarrow> ustring" where
  "brahmic data scheme_map =
     (let st = brahmic_loop scheme_map data ([], False);
          buf = (if snd st then fst st @ [ustr ''a''] else fst st)
      in concat buf)"


section \<open>The catalogue\<close>

definition BENGALI :: string where "BENGALI = ''bengali''"
definition DEVANAGARI :: string where "DEVANAGARI = ''devanagari''"
definition GUJARATI :: string where "GUJARATI = ''gujarati''"
definition KANNADA :: string where "KANNADA = ''kannada''"
definition MALAYALAM :: string where "MALAYALAM = ''malayalam''"
definition TELUGU :: string where "TELUGU = ''telugu''"
definition HK :: string where "HK = ''hk''"
definition IAST :: string where "IAST = ''iast''"
definition SLP1 :: string where "SLP1 = ''slp1''"

text \<open>
  The tables of \<^verbatim>\<open>_setup\<close>, each character written as the list of its code points
  (\<^verbatim>\<open>unicode.split\<close> cuts the literal at white space). The groups are listed in the order of
  the source text.
\<close>

definition BENGALI_scheme :: Scheme where
  "BENGALI_scheme = \<lparr>groups = [
     (''vowels'', [
        [0x0985], [0x0986], [0x0987], [0x0988], [0x0989], [0x098A], [0x098B], [0x09E0],
        [0x098C], [0x09E1], [0x098F], [0x0990], [0x0993], [0x0994]]),
     (''marks'', [
        [0x09BE], [0x09BF], [0x09C0], [0x09C1], [0x09C2], [0x09C3], [0x09C4], [0x09E2],
        [0x09E3], [0x09C7], [0x09C8], [0x09CB], [0x09CC]]),
     (''virama'', [
        [0x09CD]]),
     (''other'', [
        [0x0982], [0x0983], [0x0981]]),
     (''consonants'', [
        [0x0995], [0x0996], [0x0997], [0x0998], [0x0999], [0x099A], [0x099B], [0x099C],
        [0x099D], [0x099E], [0x099F], [0x09A0], [0x09A1], [0x09A2], [0x09A3], [0x09A4],
        [0x09A5], [0x09A6], [0x09A7], [0x09A8], [0x09AA], [0x09AB], [0x09AC], [0x09AD],
        [0x09AE], [0x09AF], [0x09B0], [0x09B2], [0x09AC], [0x09B6], [0x09B7], [0x09B8],
        [0x09B9], [0x0933], [0x0995, 0x09CD, 0x09B7], [0x099C, 0x09CD, 0x099E]]),
     (''symbols'', [
        [0x0950], [0x09BD], [0x0964], [0x0965], [0x09E6], [0x09E7], [0x09E8], [0x09E9],
        [0x09EA], [0x09EB], [0x09EC], [0x09ED], [0x09EE], [0x09EF]])
     ], is_roman = False\<rparr>"

definition DEVANAGARI_scheme :: Scheme where
  "DEVANAGARI_scheme = \<lparr>groups = [
     (''vowels'', [
        [0x0905], [0x0906], [0x0907], [0x0908], [0x0909], [0x090A], [0x090B], [0x0960],
        [0x090C], [0x0961], [0x090F], [0x0910], [0x0913], [0x0914]]),
     (''marks'', [
        [0x093E], [0x093F], [0x0940], [0x0941], [0x0942], [0x0943], [0x0944], [0x0962],
        [0x0963], [0x0947], [0x0948], [0x094B], [0x094C]]),
     (''virama'', [
        [0x094D]]),
     (''other'', [
        [0x0902], [0x0903], [0x0901]]),
     (''consonants'', [
        [0x0915], [0x0916], [0x0917], [0x0918], [0x0919], [0x091A], [0x091B], [0x091C],
        [0x091D], [0x091E], [0x091F], [0x0920], [0x0921], [0x0922], [0x0923], [0x0924],
        [0x0925], [0x0926], [0x0927], [0x0928], [0x092A], [0x092B], [0x092C], [0x092D],
        [0x092E], [0x092F], [0x0930], [0x0932], [0x0935], [0x0936], [0x0937], [0x0938],
        [0x0939], [0x0933], [0x0915, 0x094D, 0x0937], [0x091C, 0x094D, 0x091E]]),
     (''symbols'', [
        [0x0950], [0x093D], [0x0964], [0x0965], [0x0966], [0x0967], [0x0968], [0x0969],
        [0x096A], [0x096B], [0x096C], [0x096D], [0x096E], [0x096F]])
     ], is_roman = False\<rparr>"

definition GUJARATI_scheme :: Scheme where
  "GUJARATI_scheme = \<lparr>groups = [
     (''vowels'', [
        [0x0A85], [0x0A86], [0x0A87], [0x0A88], [0x0A89], [0x0A8A], [0x0A8B], [0x0AE0],
        [0x0A8C], [0x0AE1], [0x0A8F], [0x0A90], [0x0A93], [0x0A94]]),
     (''marks'', [
        [0x0ABE], [0x0ABF], [0x0AC0], [0x0AC1], [0x0AC2], [0x0AC3], [0x0AC4], [0x0AE2],
        [0x0AE3], [0x0AC7], [0x0AC8], [0x0ACB], [0x0ACC]]),
     (''virama'', [
        [0x0ACD]]),
     (''other'', [
        [0x0A82], [0x0A83], [0x0A81]]),
     (''consonants'', [
        [0x0A95], [0x0A96], [0x0A97], [0x0A98], [0x0A99], [0x0A9A], [0x0A9B], [0x0A9C],
        [0x0A9D], [0x0A9E], [0x0A9F], [0x0AA0], [0x0AA1], [0x0AA2], [0x0AA3], [0x0AA4],
        [0x0AA5], [0x0AA6], [0x0AA7], [0x0AA8], [0x0AAA], [0x0AAB], [0x0AAC], [0x0AAD],
        [0x0AAE], [0x0AAF], [0x0AB0], [0x0AB2], [0x0AB5], [0x0AB6], [0x0AB7], [0x0AB8],
        [0x0AB9], [0x0AB3], [0x0A95, 0x0ACD, 0x0AB7], [0x0A9C, 0x0ACD, 0x0A9E]]),
     (''symbols'', [
        [0x0AD0], [0x0ABD], [0x0AE4], [0x0AE5], [0x0AE6], [0x0AE7], [0x0AE8], [0x0AE9],
        [0x0AEA], [0x0AEB], [0x0AEC], [0x0AED], [0x0AEE], [0x0AEF]])
     ], is_roman = False\<rparr>"

definition HK_scheme :: Scheme where
  "HK_scheme = \<lparr>groups = [
     (''vowels'', [
        [0x0061], [0x0041], [0x0069], [0x0049], [0x0075], [0x0055], [0x0052], [0x0052,
        0x0052], [0x006C, 0x0052], [0x006C, 0x0052, 0x0052], [0x0065], [0x0061, 0x0069],
        [0x006F], [0x0061, 0x0075]]),
     (''marks'', [
        [0x0041], [0x0069], [0x0049], [0x0075], [0x0055], [0x0052], [0x0052, 0x0052],
        [0x006C, 0x0052], [0x006C, 0x0052, 0x0052], [0x0065], [0x0061, 0x0069],
        [0x006F], [0x0061, 0x0075]]),
     (''virama'', [
        []]),
     (''other'', [
        [0x004D], [0x0048], [0x007E]]),
     (''consonants'', [
        [0x006B], [0x006B, 0x0068], [0x0067], [0x0067, 0x0068], [0x0047], [0x0063],
        [0x0063, 0x0068], [0x006A], [0x006A, 0x0068], [0x004A], [0x0054], [0x0054,
        0x0068], [0x0044], [0x0044, 0x0068], [0x004E], [0x0074], [0x0074, 0x0068],
        [0x0064], [0x0064, 0x0068], [0x006E], [0x0070], [0x0070, 0x0068], [0x0062],
        [0x0062, 0x0068], [0x006D], [0x0079], [0x0072], [0x006C], [0x0076], [0x007A],
        [0x0053], [0x0073], [0x0068], [0x004C], [0x006B, 0x0053], [0x006A, 0x004A]]),
     (''symbols'', [
        [0x004F, 0x004D], [0x0027], [0x007C], [0x007C, 0x007C], [0x0030], [0x0031],
        [0x0032], [0x0033], [0x0034], [0x0035], [0x0036], [0x0037], [0x0038], [0x0039]])
     ], is_roman = True\<rparr>"

definition IAST_scheme :: Scheme where
  "IAST_scheme = \<lparr>groups = [
     (''vowels'', [
        [0x0061], [0x0101], [0x0069], [0x012B], [0x0075], [0x016B], [0x1E5B], [0x1E5D],
        [0x1E37], [0x1E39], [0x0065], [0x0061, 0x0069], [0x006F], [0x0061, 0x0075]]),
     (''marks'', [
        [0x0101], [0x0069], [0x012B], [0x0075], [0x016B], [0x1E5B], [0x1E5D], [0x1E37],
        [0x1E39], [0x0065], [0x0061, 0x0069], [0x006F], [0x0061, 0x0075]]),
     (''virama'', [
        []]),
     (''other'', [
        [0x1E43], [0x1E25], [0x006D, 0x0310]]),
     (''consonants'', [
        [0x006B], [0x006B, 0x0068], [0x0067], [0x0067, 0x0068], [0x1E45], [0x0063],
        [0x0063, 0x0068], [0x006A], [0x006A, 0x0068], [0x00F1], [0x1E6D], [0x1E6D,
        0x0068], [0x1E0D], [0x1E0D, 0x0068], [0x1E47], [0x0074], [0x0074, 0x0068],
        [0x0064], [0x0064, 0x0068], [0x006E], [0x0070], [0x0070, 0x0068], [0x0062],
        [0x0062, 0x0068], [0x006D], [0x0079], [0x0072], [0x006C], [0x0076], [0x015B],
        [0x1E63], [0x0073], [0x0068], [0x1E3B], [0x006B, 0x1E63], [0x006A, 0x00F1]]),
     (''symbols'', [
        [0x006F, 0x1E43], [0x0027], [0x0964], [0x0965], [0x0030], [0x0031], [0x0032],
        [0x0033], [0x0034], [0x0035], [0x0036], [0x0037], [0x0038], [0x0039]])
     ], is_roman = True\<rparr>"

definition KANNADA_scheme :: Scheme where
  "KANNADA_scheme = \<lparr>groups = [
     (''vowels'', [
        [0x0C85], [0x0C86], [0x0C87], [0x0C88], [0x0C89], [0x0C8A], [0x0C8B], [0x0CE0],
        [0x0C8C], [0x0CE1], [0x0C8F], [0x0C90], [0x0C93], [0x0C94]]),
     (''marks'', [
        [0x0CBE], [0x0CBF], [0x0CC0], [0x0CC1], [0x0CC2], [0x0CC3], [0x0CC4], [0x0CE2],
        [0x0CE3], [0x0CC7], [0x0CC8], [0x0CCB], [0x0CCC]]),
     (''virama'', [
        [0x0CCD]]),
     (''other'', [
        [0x0C82], [0x0C83], [0x0901]]),
     (''consonants'', [
        [0x0C95], [0x0C96], [0x0C97], [0x0C98], [0x0C99], [0x0C9A], [0x0C9B], [0x0C9C],
        [0x0C9D], [0x0C9E], [0x0C9F], [0x0CA0], [0x0CA1], [0x0CA2], [0x0CA3], [0x0CA4],
        [0x0CA5], [0x0CA6], [0x0CA7], [0x0CA8], [0x0CAA], [0x0CAB], [0x0CAC], [0x0CAD],
        [0x0CAE], [0x0CAF], [0x0CB0], [0x0CB2], [0x0CB5], [0x0CB6], [0x0CB7], [0x0CB8],
        [0x0CB9], [0x0CB3], [0x0C95, 0x0CCD, 0x0CB7], [0x0C9C, 0x0CCD, 0x0C9E]]),
     (''symbols'', [
        [0x0C93, 0x0C82], [0x093D], [0x0964], [0x0965], [0x0CE6], [0x0CE7], [0x0CE8],
        [0x0CE9], [0x0CEA], [0x0CEB], [0x0CEC], [0x0CED], [0x0CEE], [0x0CEF]])
     ], is_roman = False\<rparr>"

definition MALAYALAM_scheme :: Scheme where
  "MALAYALAM_scheme = \<lparr>groups = [
     (''vowels'', [
        [0x0D05], [0x0D06], [0x0D07], [0x0D08], [0x0D09], [0x0D0A], [0x0D0B], [0x0D60],
        [0x0D0C], [0x0D61], [0x0D0F], [0x0D10], [0x0D13], [0x0D14]]),
     (''marks'', [
        [0x0D3E], [0x0D3F], [0x0D40], [0x0D41], [0x0D42], [0x0D43], [0x0D44], [0x0D62],
        [0x0D63], [0x0D47], [0x0D48], [0x0D4B], [0x0D4C]]),
     (''virama'', [
        [0x0D4D]]),
     (''other'', [
        [0x0D02], [0x0D03], [0x0901]]),
     (''consonants'', [
        [0x0D15], [0x0D16], [0x0D17], [0x0D18], [0x0D19], [0x0D1A], [0x0D1B], [0x0D1C],
        [0x0D1D], [0x0D1E], [0x0D1F], [0x0D20], [0x0D21], [0x0D22], [0x0D23], [0x0D24],
        [0x0D25], [0x0D26], [0x0D27], [0x0D28], [0x0D2A], [0x0D2B], [0x0D2C], [0x0D2D],
        [0x0D2E], [0x0D2F], [0x0D30], [0x0D32], [0x0D35], [0x0D36], [0x0D37], [0x0D38],
        [0x0D39], [0x0D33], [0x0D15, 0x0D4D, 0x0D37], [0x0D1C, 0x0D4D, 0x0D1E]]),
     (''symbols'', [
        [0x0D13, 0x0D02], [0x0D3D], [0x0964], [0x0965], [0x0D66], [0x0D67], [0x0D68],
        [0x0D69], [0x0D6A], [0x0D6B], [0x0D6C], [0x0D6D], [0x0D6E], [0x0D6F]])
     ], is_roman = False\<rparr>"

definition SLP1_scheme :: Scheme where
  "SLP1_scheme = \<lparr>groups = [
     (''vowels'', [
        [0x0061], [0x0041], [0x0069], [0x0049], [0x0075], [0x0055], [0x0066], [0x0046],
        [0x0078], [0x0058], [0x0065], [0x0045], [0x006F], [0x004F]]),
     (''marks'', [
        [0x0041], [0x0069], [0x0049], [0x0075], [0x0055], [0x0066], [0x0046], [0x0078],
        [0x0058], [0x0065], [0x0045], [0x006F], [0x004F]]),
     (''virama'', [
        []]),
     (''other'', [
        [0x004D], [0x0048], [0x007E]]),
     (''consonants'', [
        [0x006B], [0x004B], [0x0067], [0x0047], [0x004E], [0x0063], [0x0043], [0x006A],
        [0x004A], [0x0059], [0x0077], [0x0057], [0x0071], [0x0051], [0x0052], [0x0074],
        [0x0054], [0x0064], [0x0044], [0x006E], [0x0070], [0x0050], [0x0062], [0x0042],
        [0x006D], [0x0079], [0x0072], [0x006C], [0x0076], [0x0053], [0x007A], [0x0073],
        [0x0068], [0x004C], [0x006B, 0x007A], [0x006A, 0x0059]]),
     (''symbols'', [
        [0x006F, 0x004D], [0x0027], [0x002E], [0x002E, 0x002E], [0x0030], [0x0031],
        [0x0032], [0x0033], [0x0034], [0x0035], [0x0036], [0x0037], [0x0038], [0x0039]])
     ], is_roman = True\<rparr>"

definition TELUGU_scheme :: Scheme where
  "TELUGU_scheme = \<lparr>groups = [
     (''vowels'', [
        [0x0C05], [0x0C06], [0x0C07], [0x0C08], [0x0C09], [0x0C0A], [0x0C0B], [0x0C60],
        [0x0C0C], [0x0C61], [0x0C0F], [0x0C10], [0x0C13], [0x0C14]]),
     (''marks'', [
        [0x0C3E], [0x0C3F], [0x0C40], [0x0C41], [0x0C42], [0x0C43], [0x0C44], [0x0C62],
        [0x0C63], [0x0C47], [0x0C48], [0x0C4B], [0x0C4C]]),
     (''virama'', [
        [0x0C4D]]),
     (''other'', [
        [0x0C02], [0x0C03], [0x0C01]]),
     (''consonants'', [
        [0x0C15], [0x0C16], [0x0C17], [0x0C18], [0x0C19], [0x0C1A], [0x0C1B], [0x0C1C],
        [0x0C1D], [0x0C1E], [0x0C1F], [0x0C20], [0x0C21], [0x0C22], [0x0C23], [0x0C24],
        [0x0C25], [0x0C26], [0x0C27], [0x0C28], [0x0C2A], [0x0C2B], [0x0C2C], [0x0C2D],
        [0x0C2E], [0x0C2F], [0x0C30], [0x0C32], [0x0C35], [0x0C36], [0x0C37], [0x0C38],
        [0x0C39], [0x0C33], [0x0C15, 0x0C4D, 0x0C37], [0x0C1C, 0x0C4D, 0x0C1E]]),
     (''symbols'', [
        [0x0C13, 0x0C02], [0x0C3D], [0x0964], [0x0965], [0x0C66], [0x0C67], [0x0C68],
        [0x0C69], [0x0C6A], [0x0C6B], [0x0C6C], [0x0C6D], [0x0C6E], [0x0C6F]])
     ], is_roman = False\<rparr>"

definition SCHEMES :: "string \<rightharpoonup> Scheme" where
  "SCHEMES = map_of
     [(BENGALI, BENGALI_scheme), (DEVANAGARI, DEVANAGARI_scheme), (GUJARATI, GUJARATI_scheme),
      (HK, HK_scheme), (IAST, IAST_scheme), (KANNADA, KANNADA_scheme),
      (MALAYALAM, MALAYALAM_scheme), (SLP1, SLP1_scheme), (TELUGU, TELUGU_scheme)]"


section \<open>The entry point\<close>

datatype error = KeyError "string option"

definition SCHEMES_getitem :: "string option \<Rightarrow> error + Scheme" where
  \<comment> \<open>\<^verbatim>\<open>SCHEMES[key]\<close>; the default \<^verbatim>\<open>None\<close> of \<^verbatim>\<open>_from\<close> and \<^verbatim>\<open>_to\<close> is no key of the catalogue\<close>
  "SCHEMES_getitem key =
     (case key of
        None \<Rightarrow> Inl (KeyError None)
      | Some name \<Rightarrow>
          (case SCHEMES name of None \<Rightarrow> Inl (KeyError key) | Some scheme \<Rightarrow> Inr scheme))"

definition resolve_scheme_map ::
    "string option \<Rightarrow> string option \<Rightarrow> SchemeMap option \<Rightarrow> error + SchemeMap" where
  \<comment> \<open>the block \<^verbatim>\<open>if scheme_map is None: ...\<close> of \<^verbatim>\<open>transliterate\<close>\<close>
  "resolve_scheme_map from_id to_id scheme_map =
     (case scheme_map of
        None \<Rightarrow>
          (case SCHEMES_getitem from_id of
             Inl e \<Rightarrow> Inl e
           | Inr from_scheme \<Rightarrow>
               (case SCHEMES_getitem to_id of
                  Inl e \<Rightarrow> Inl e
                | Inr to_scheme \<Rightarrow> Inr (SchemeMap_init from_scheme to_scheme)))
      | Some sm \<Rightarrow> Inr sm)"

definition transliterate ::
    "ustring \<Rightarrow> string option \<Rightarrow> string option \<Rightarrow> SchemeMap option \<Rightarrow> error + ustring" where
  "transliterate data from_id to_id scheme_map =
     (case resolve_scheme_map from_id to_id scheme_map of
        Inl e \<Rightarrow> Inl e
      | Inr sm \<Rightarrow> Inr (if from_roman sm then roman data sm else brahmic data sm))"


section \<open>Example schemes\<close>

text \<open>
  A segmental scheme that lists the same character as a vowel sign and as a consonant, and
  a romanized scheme to pair it with.
\<close>

definition sign_and_consonant :: Scheme where
  "sign_and_consonant =
     \<lparr>groups = [(''marks'', [[0x0940]]), (''consonants'', [[0x0940]])], is_roman = False\<rparr>"

definition sign_and_consonant_roman :: Scheme where
  "sign_and_consonant_roman =
     \<lparr>groups = [(''marks'', [[0x012B]]), (''consonants'', [[0x006B]])], is_roman = True\<rparr>"

text \<open>
  A romanized scheme that has only the first 23 consonants, \<^verbatim>\<open>k\<close> to \<^verbatim>\<open>b\<close>. Paired with the
  36 Bengali consonants, the pairing stops after the 23rd, which is U+09AC; the 29th Bengali
  consonant is U+09AC again.
\<close>

definition short_roman :: Scheme where
  "short_roman = \<lparr>groups = [
     (''consonants'', [
        [0x006B], [0x006B, 0x0068], [0x0067], [0x0067, 0x0068], [0x1E45], [0x0063],
        [0x0063, 0x0068], [0x006A], [0x006A, 0x0068], [0x00F1], [0x1E6D], [0x1E6D, 0x0068],
        [0x1E0D], [0x1E0D, 0x0068], [0x1E47], [0x0074], [0x0074, 0x0068], [0x0064],
        [0x0064, 0x0068], [0x006E], [0x0070], [0x0070, 0x0068], [0x0062]])
     ], is_roman = True\<rparr>"

text \<open>
  A romanized scheme that writes the virama as a middle dot, U+00B7, and has the one
  consonant \<^verbatim>\<open>k\<close>.
\<close>

definition dotted_roman :: Scheme where
  "dotted_roman =
     \<lparr>groups = [(''virama'', [[0x00B7]]), (''consonants'', [[0x006B]])], is_roman = True\<rparr>"


section \<open>Dictionaries built from pairs\<close>

lemma fold_upd_eq:
  "fold (\<lambda>kv d. d(fst kv \<mapsto> snd kv)) ps m = m ++ map_of (rev ps)"
proof (induction ps arbitrary: m)
  case Nil
  show ?case by simp
next
  case (Cons p ps)
  obtain k v where p: "p = (k, v)" by (cases p)
  have "fold (\<lambda>kv d. d(fst kv \<mapsto> snd kv)) (p # ps) m
          = fold (\<lambda>kv d. d(fst kv \<mapsto> snd kv)) ps (m(k \<mapsto> v))"
    by (simp add: p)
  also have "\<dots> = m(k \<mapsto> v) ++ map_of (rev ps)"
    by (rule Cons.IH)
  also have "\<dots> = m ++ map_of (rev (p # ps))"
    by (simp add: p)
  finally show ?case .
qed

lemma dict_of_pairs_eq: "dict_of_pairs ps = map_of (rev ps)"
  by (simp add: dict_of_pairs_def fold_upd_eq)

lemma dict_of_pairs_in_set: "dict_of_pairs ps k = Some v \<Longrightarrow> (k, v) \<in> set ps"
  using map_of_SomeD [of "rev ps" k v] by (simp add: dict_of_pairs_eq)

lemma dom_dict_of_pairs: "dom (dict_of_pairs ps) = fst ` set ps"
  by (simp add: dict_of_pairs_eq dom_map_of_conv_image_fst)

lemma map_fst_zip_min: "map fst (zip ks vs) = take (min (length ks) (length vs)) ks"
  by (induction ks arbitrary: vs) (auto simp: zip_Cons1 split: list.splits)

lemma map_snd_zip_min: "map snd (zip ks vs) = take (min (length ks) (length vs)) vs"
  by (induction ks arbitrary: vs) (auto simp: zip_Cons1 split: list.splits)

lemma dom_sub_map:
  "dom (dict_of_pairs (zip ks vs)) = set (take (min (length ks) (length vs)) ks)"
proof -
  have "fst ` set (zip ks vs) = set (map fst (zip ks vs))" by simp
  then show ?thesis by (simp only: dom_dict_of_pairs map_fst_zip_min)
qed

lemma sub_map_value:
  assumes "dict_of_pairs (zip ks vs) k = Some v"
  shows "v \<in> set (take (min (length ks) (length vs)) vs)"
proof -
  have "(k, v) \<in> set (zip ks vs)" using assms by (rule dict_of_pairs_in_set)
  then have "v \<in> set (map snd (zip ks vs))" by force
  then show ?thesis by (simp only: map_snd_zip_min)
qed

lemma sub_map_last_wins:
  assumes i: "i < length ks" "i < length vs"
    and later: "\<forall>j. i < j \<and> j < length ks \<and> j < length vs \<longrightarrow> ks ! j \<noteq> ks ! i"
  shows "dict_of_pairs (zip ks vs) (ks ! i) = Some (vs ! i)"
  using i later
proof (induction ks arbitrary: vs i)
  case Nil
  then show ?case by simp
next
  case (Cons k ks)
  obtain v vs' where vs: "vs = v # vs'" using Cons.prems(2) by (cases vs) auto
  have eq: "dict_of_pairs ((k, v) # zip ks vs') = [k \<mapsto> v] ++ dict_of_pairs (zip ks vs')"
    by (simp add: dict_of_pairs_eq)
  show ?case
  proof (cases i)
    case 0
    have "k \<notin> set (take (min (length ks) (length vs')) ks)"
    proof
      assume "k \<in> set (take (min (length ks) (length vs')) ks)"
      then obtain j where j: "j < min (length ks) (length vs')" "ks ! j = k"
        by (auto simp: in_set_conv_nth)
      with Cons.prems(3) [rule_format, of "Suc j"] 0 vs show False by simp
    qed
    then have "dict_of_pairs (zip ks vs') k = None"
      by (simp only: dom_sub_map [symmetric] domIff) simp
    then show ?thesis by (simp add: eq 0 vs map_add_def)
  next
    case (Suc i')
    have "dict_of_pairs (zip ks vs') (ks ! i') = Some (vs' ! i')"
    proof (rule Cons.IH)
      show "i' < length ks" using Cons.prems(1) Suc by simp
      show "i' < length vs'" using Cons.prems(2) Suc vs by simp
      show "\<forall>j. i' < j \<and> j < length ks \<and> j < length vs' \<longrightarrow> ks ! j \<noteq> ks ! i'"
      proof (intro allI impI)
        fix j assume "i' < j \<and> j < length ks \<and> j < length vs'"
        with Cons.prems(3) [rule_format, of "Suc j"] Suc vs show "ks ! j \<noteq> ks ! i'" by simp
      qed
    qed
    then show ?thesis by (simp add: eq Suc vs map_add_def)
  qed
qed


section \<open>Building a scheme map\<close>

lemma from_roman_add_group [simp]: "from_roman (add_group t item sm) = from_roman sm"
  by (simp add: add_group_def Let_def split: option.splits)

lemma to_roman_add_group [simp]: "to_roman (add_group t item sm) = to_roman sm"
  by (simp add: add_group_def Let_def split: option.splits)

lemma roman_flags_fold:
  "from_roman (fold (add_group t) gs sm) = from_roman sm \<and>
   to_roman (fold (add_group t) gs sm) = to_roman sm"
  by (induction gs arbitrary: sm) simp_all

lemma from_roman_init [simp]: "from_roman (SchemeMap_init f t) = is_roman f"
  by (simp add: SchemeMap_init_def roman_flags_fold)

lemma to_roman_init [simp]: "to_roman (SchemeMap_init f t) = is_roman t"
  by (simp add: SchemeMap_init_def roman_flags_fold)

text \<open>The scheme map of two schemes that have the six groups of the catalogue.\<close>

lemma SchemeMap_init_six:
  "SchemeMap_init
     \<lparr>groups = [(''vowels'', fv), (''marks'', fm), (''virama'', fi), (''other'', fo),
                (''consonants'', fc), (''symbols'', fs)], is_roman = fr\<rparr>
     \<lparr>groups = [(''vowels'', tv), (''marks'', tm), (''virama'', ti), (''other'', to),
                (''consonants'', tc), (''symbols'', ts)], is_roman = tr\<rparr>
   = \<lparr>marks = Map.empty ++ dict_of_pairs (zip fm tm),
      virama = dict_of_pairs (zip fi ti),
      consonants = Map.empty ++ dict_of_pairs (zip fc tc),
      other = Map.empty ++ dict_of_pairs (zip fv tv) ++ dict_of_pairs (zip fo to)
                ++ dict_of_pairs (zip fc tc) ++ dict_of_pairs (zip fs ts),
      from_roman = fr, to_roman = tr\<rparr>"
  by (simp add: SchemeMap_init_def add_group_def endswith_def Let_def)


section \<open>The catalogue\<close>

lemma SCHEMES_entries:
  "SCHEMES BENGALI = Some BENGALI_scheme"
  "SCHEMES DEVANAGARI = Some DEVANAGARI_scheme"
  "SCHEMES GUJARATI = Some GUJARATI_scheme"
  "SCHEMES HK = Some HK_scheme"
  "SCHEMES IAST = Some IAST_scheme"
  "SCHEMES KANNADA = Some KANNADA_scheme"
  "SCHEMES MALAYALAM = Some MALAYALAM_scheme"
  "SCHEMES SLP1 = Some SLP1_scheme"
  "SCHEMES TELUGU = Some TELUGU_scheme"
  by (simp_all add: SCHEMES_def BENGALI_def DEVANAGARI_def GUJARATI_def HK_def IAST_def
      KANNADA_def MALAYALAM_def SLP1_def TELUGU_def)

lemma dom_SCHEMES:
  "dom SCHEMES = {BENGALI, DEVANAGARI, GUJARATI, HK, IAST, KANNADA, MALAYALAM, SLP1, TELUGU}"
  unfolding SCHEMES_def by (simp only: dom_map_of_conv_image_fst) auto

lemma SCHEMES_cases:
  assumes "SCHEMES name = Some s"
  shows "s \<in> {BENGALI_scheme, DEVANAGARI_scheme, GUJARATI_scheme, HK_scheme, IAST_scheme,
              KANNADA_scheme, MALAYALAM_scheme, SLP1_scheme, TELUGU_scheme}"
  using map_of_SomeD [OF assms [unfolded SCHEMES_def]] by auto

lemma is_roman_catalogue:
  "\<not> is_roman BENGALI_scheme" "\<not> is_roman DEVANAGARI_scheme" "\<not> is_roman GUJARATI_scheme"
  "is_roman HK_scheme" "is_roman IAST_scheme" "\<not> is_roman KANNADA_scheme"
  "\<not> is_roman MALAYALAM_scheme" "is_roman SLP1_scheme" "\<not> is_roman TELUGU_scheme"
  by (simp_all add: BENGALI_scheme_def DEVANAGARI_scheme_def GUJARATI_scheme_def HK_scheme_def
      IAST_scheme_def KANNADA_scheme_def MALAYALAM_scheme_def SLP1_scheme_def TELUGU_scheme_def)

lemma roman_virama_group:
  "map_of (groups HK_scheme) ''virama'' = Some [[]]"
  "map_of (groups IAST_scheme) ''virama'' = Some [[]]"
  "map_of (groups SLP1_scheme) ''virama'' = Some [[]]"
  by (simp_all add: HK_scheme_def IAST_scheme_def SLP1_scheme_def)

lemma catalogue_roman_virama:
  assumes "SCHEMES name = Some s" and "is_roman s"
  shows "map_of (groups s) ''virama'' = Some [[]]"
  using SCHEMES_cases [OF assms(1)] assms(2) is_roman_catalogue roman_virama_group by auto

lemma SCHEMES_getitem_Some: "SCHEMES name = Some s \<Longrightarrow> SCHEMES_getitem (Some name) = Inr s"
  by (simp add: SCHEMES_getitem_def)

lemma resolve_catalogue:
  "SCHEMES f = Some fs \<Longrightarrow> SCHEMES t = Some ts \<Longrightarrow>
     resolve_scheme_map (Some f) (Some t) None = Inr (SchemeMap_init fs ts)"
  by (simp add: resolve_scheme_map_def SCHEMES_getitem_Some)

lemma resolve_given: "resolve_scheme_map f t (Some sm) = Inr sm"
  by (simp add: resolve_scheme_map_def)


section \<open>The scan of the segmental conversion\<close>

lemma brahmic_loop_append:
  "brahmic_loop sm (xs @ ys) st = brahmic_loop sm ys (brahmic_loop sm xs st)"
  by (induction xs arbitrary: st) simp_all

lemma brahmic_loop_snoc:
  "brahmic_loop sm (data @ [L]) st = brahmic_step sm (brahmic_loop sm data st) L"
  by (simp add: brahmic_loop_append)

lemma brahmic_step_flag:
  "snd (brahmic_step sm st L) = (to_roman sm \<and> consonants sm [L] \<noteq> None)"
  by (simp add: brahmic_step_def Let_def)

lemma transliterate_resolved:
  "resolve_scheme_map f t s = Inr sm \<Longrightarrow>
     transliterate data f t s = Inr (if from_roman sm then roman data sm else brahmic data sm)"
  by (simp add: transliterate_def)


section \<open>Entries of the map from Devanagari to IAST\<close>

lemma deva_iast_ka:
  "marks (SchemeMap_init DEVANAGARI_scheme IAST_scheme) [0x0915] = None"
  "virama (SchemeMap_init DEVANAGARI_scheme IAST_scheme) [0x0915] = None"
  "consonants (SchemeMap_init DEVANAGARI_scheme IAST_scheme) [0x0915] = Some [0x006B]"
  "other (SchemeMap_init DEVANAGARI_scheme IAST_scheme) [0x0915] = Some [0x006B]"
  unfolding DEVANAGARI_scheme_def IAST_scheme_def SchemeMap_init_six SchemeMap.select_convs
    dict_of_pairs_eq
  by (simp_all add: map_add_def)

lemma deva_iast_ssa:
  "marks (SchemeMap_init DEVANAGARI_scheme IAST_scheme) [0x0937] = None"
  "virama (SchemeMap_init DEVANAGARI_scheme IAST_scheme) [0x0937] = None"
  "consonants (SchemeMap_init DEVANAGARI_scheme IAST_scheme) [0x0937] = Some [0x1E63]"
  "other (SchemeMap_init DEVANAGARI_scheme IAST_scheme) [0x0937] = Some [0x1E63]"
  unfolding DEVANAGARI_scheme_def IAST_scheme_def SchemeMap_init_six SchemeMap.select_convs
    dict_of_pairs_eq
  by (simp_all add: map_add_def)

lemma deva_iast_sign_ii:
  "marks (SchemeMap_init DEVANAGARI_scheme IAST_scheme) [0x0940] = Some [0x012B]"
  "consonants (SchemeMap_init DEVANAGARI_scheme IAST_scheme) [0x0940] = None"
  unfolding DEVANAGARI_scheme_def IAST_scheme_def SchemeMap_init_six SchemeMap.select_convs
    dict_of_pairs_eq
  by (simp_all add: map_add_def)

lemma deva_iast_virama:
  "marks (SchemeMap_init DEVANAGARI_scheme IAST_scheme) [0x094D] = None"
  "virama (SchemeMap_init DEVANAGARI_scheme IAST_scheme) [0x094D] = Some []"
  "consonants (SchemeMap_init DEVANAGARI_scheme IAST_scheme) [0x094D] = None"
  unfolding DEVANAGARI_scheme_def IAST_scheme_def SchemeMap_init_six SchemeMap.select_convs
    dict_of_pairs_eq
  by (simp_all add: map_add_def)

lemma deva_iast_ksa:
  "consonants (SchemeMap_init DEVANAGARI_scheme IAST_scheme) [0x0915, 0x094D, 0x0937]
     = Some [0x006B, 0x1E63]"
  "other (SchemeMap_init DEVANAGARI_scheme IAST_scheme) [0x0915, 0x094D, 0x0937]
     = Some [0x006B, 0x1E63]"
  unfolding DEVANAGARI_scheme_def IAST_scheme_def SchemeMap_init_six SchemeMap.select_convs
    dict_of_pairs_eq
  by (simp_all add: map_add_def)


section \<open>Invariants of the construction\<close>

lemma consonants_other_add_group:
  assumes "\<forall>k. consonants sm k \<noteq> None \<longrightarrow> other sm k \<noteq> None"
  shows "\<forall>k. consonants (add_group t item sm) k \<noteq> None \<longrightarrow> other (add_group t item sm) k \<noteq> None"
  using assms by (auto simp: add_group_def Let_def map_add_def split: option.splits)

lemma consonants_other_fold:
  "\<forall>k. consonants sm k \<noteq> None \<longrightarrow> other sm k \<noteq> None \<Longrightarrow>
   \<forall>k. consonants (fold (add_group t) gs sm) k \<noteq> None \<longrightarrow>
         other (fold (add_group t) gs sm) k \<noteq> None"
proof (induction gs arbitrary: sm)
  case Nil
  then show ?case by simp
next
  case (Cons g gs)
  show ?case
    unfolding fold_simps
    by (rule Cons.IH) (rule consonants_other_add_group [OF Cons.prems])
qed

lemma consonants_in_other:
  "consonants (SchemeMap_init f t) k \<noteq> None \<Longrightarrow> other (SchemeMap_init f t) k \<noteq> None"
proof -
  let ?init = "\<lparr>marks = Map.empty, virama = Map.empty, consonants = Map.empty,
      other = Map.empty, from_roman = is_roman f, to_roman = is_roman t\<rparr>"
  assume c: "consonants (SchemeMap_init f t) k \<noteq> None"
  have "\<forall>k. consonants ?init k \<noteq> None \<longrightarrow> other ?init k \<noteq> None"
    by simp
  from consonants_other_fold [OF this, of t "groups f"] c
  show "other (SchemeMap_init f t) k \<noteq> None"
    by (simp add: SchemeMap_init_def)
qed

lemma virama_add_group:
  assumes "\<forall>k v. virama sm k = Some v \<longrightarrow>
             (\<exists>tv. map_of (groups t) ''virama'' = Some tv \<and> v \<in> set tv)"
  shows "\<forall>k v. virama (add_group t item sm) k = Some v \<longrightarrow>
             (\<exists>tv. map_of (groups t) ''virama'' = Some tv \<and> v \<in> set tv)"
proof (intro allI impI)
  fix k v
  assume v: "virama (add_group t item sm) k = Some v"
  show "\<exists>tv. map_of (groups t) ''virama'' = Some tv \<and> v \<in> set tv"
  proof (cases "map_of (groups t) (fst item)")
    case None
    then show ?thesis using v assms by (simp add: add_group_def)
  next
    case (Some to_chars)
    show ?thesis
    proof (cases "\<not> endswith (fst item) ''marks'' \<and> fst item = ''virama''")
      case True
      then have "dict_of_pairs (zip (snd item) to_chars) k = Some v"
        using v Some by (simp add: add_group_def Let_def endswith_def)
      then have "v \<in> set to_chars"
        by (blast dest: sub_map_value in_set_takeD)
      then show ?thesis using True Some by simp
    next
      case False
      then have "virama (add_group t item sm) = virama sm"
        using Some by (auto simp: add_group_def Let_def)
      then show ?thesis using v assms by simp
    qed
  qed
qed

lemma virama_fold:
  "\<forall>k v. virama sm k = Some v \<longrightarrow> (\<exists>tv. map_of (groups t) ''virama'' = Some tv \<and> v \<in> set tv) \<Longrightarrow>
   \<forall>k v. virama (fold (add_group t) gs sm) k = Some v \<longrightarrow>
          (\<exists>tv. map_of (groups t) ''virama'' = Some tv \<and> v \<in> set tv)"
proof (induction gs arbitrary: sm)
  case Nil
  then show ?case by simp
next
  case (Cons g gs)
  show ?case
    unfolding fold_simps
    by (rule Cons.IH) (rule virama_add_group [OF Cons.prems])
qed

lemma virama_init_value:
  assumes "virama (SchemeMap_init f t) k = Some v"
  shows "\<exists>tv. map_of (groups t) ''virama'' = Some tv \<and> v \<in> set tv"
proof -
  let ?init = "\<lparr>marks = Map.empty, virama = Map.empty, consonants = Map.empty,
      other = Map.empty, from_roman = is_roman f, to_roman = is_roman t\<rparr>"
  have "\<forall>k v. virama ?init k = Some v \<longrightarrow>
          (\<exists>tv. map_of (groups t) ''virama'' = Some tv \<and> v \<in> set tv)"
    by simp
  from virama_fold [OF this, of "groups f"] assms show ?thesis
    by (simp add: SchemeMap_init_def)
qed

lemma brahmic_snoc:
  "brahmic (data @ [L]) sm =
     (let st = brahmic_step sm (brahmic_loop sm data ([], False)) L
      in concat (fst st) @ (if snd st then ustr ''a'' else []))"
  by (simp add: brahmic_def brahmic_loop_snoc Let_def)


section \<open>The order of the groups\<close>

text \<open>
  Python does not promise to visit the groups of a dictionary in the order of the source
  text. Two rounds of the loop commute when they are for groups of different names that
  share no character, so the scheme map of a scheme whose groups are pairwise disjoint
  does not depend on the order. Every segmental scheme of the catalogue is of that kind.
  (The destination scheme is only looked up by name.)
\<close>

lemma add_group_commute:
  assumes names: "fst x \<noteq> fst y" and disj: "set (snd x) \<inter> set (snd y) = {}"
  shows "add_group t x (add_group t y sm) = add_group t y (add_group t x sm)"
proof -
  have comm: "m ++ dict_of_pairs (zip (snd x) tx) ++ dict_of_pairs (zip (snd y) ty)
            = m ++ dict_of_pairs (zip (snd y) ty) ++ dict_of_pairs (zip (snd x) tx)"
    for m :: "ustring \<rightharpoonup> ustring" and tx ty
  proof -
    have "dom (dict_of_pairs (zip (snd x) tx)) \<inter> dom (dict_of_pairs (zip (snd y) ty)) = {}"
      using disj by (auto simp: dom_sub_map dest!: in_set_takeD)
    then have "dict_of_pairs (zip (snd x) tx) ++ dict_of_pairs (zip (snd y) ty)
             = dict_of_pairs (zip (snd y) ty) ++ dict_of_pairs (zip (snd x) tx)"
      by (rule map_add_comm)
    then have "m ++ (dict_of_pairs (zip (snd x) tx) ++ dict_of_pairs (zip (snd y) ty))
             = m ++ (dict_of_pairs (zip (snd y) ty) ++ dict_of_pairs (zip (snd x) tx))"
      by (rule arg_cong)
    then show ?thesis by (simp only: map_add_assoc)
  qed
  show ?thesis
  proof (cases "map_of (groups t) (fst x)")
    case None
    then show ?thesis by (simp add: add_group_def)
  next
    case tx: (Some tx)
    show ?thesis
    proof (cases "map_of (groups t) (fst y)")
      case None
      then show ?thesis by (simp add: add_group_def)
    next
      case ty: (Some ty)
      show ?thesis
        using names by (auto simp: add_group_def tx ty Let_def comm)
    qed
  qed
qed

lemma SchemeMap_init_reordered:
  assumes perm: "mset (groups f') = mset (groups f)" and flag: "is_roman f' = is_roman f"
    and names: "distinct (map fst (groups f))"
    and disj: "\<forall>x \<in> set (groups f). \<forall>y \<in> set (groups f). x \<noteq> y \<longrightarrow>
                 set (snd x) \<inter> set (snd y) = {}"
  shows "SchemeMap_init f' t = SchemeMap_init f t"
proof -
  have "fold (add_group t) (groups f) = fold (add_group t) (groups f')"
  proof (rule fold_multiset_equiv)
    fix x y
    assume x: "x \<in> set (groups f)" and y: "y \<in> set (groups f)"
    show "add_group t x \<circ> add_group t y = add_group t y \<circ> add_group t x"
    proof (cases "x = y")
      case True
      then show ?thesis by simp
    next
      case False
      then have "fst x \<noteq> fst y"
        using names x y by (metis eq_key_imp_eq_value prod.collapse)
      moreover have "set (snd x) \<inter> set (snd y) = {}"
        using disj x y False by blast
      ultimately show ?thesis
        by (auto simp: fun_eq_iff intro: add_group_commute)
    qed
  next
    show "mset (groups f) = mset (groups f')" using perm by simp
  qed
  then show ?thesis by (simp add: SchemeMap_init_def flag)
qed

lemma bengali_groups:
  "distinct (map fst (groups BENGALI_scheme))"
  "\<forall>x \<in> set (groups BENGALI_scheme). \<forall>y \<in> set (groups BENGALI_scheme). x \<noteq> y \<longrightarrow>
      set (snd x) \<inter> set (snd y) = {}"
  unfolding BENGALI_scheme_def by simp_all

lemma devanagari_groups:
  "distinct (map fst (groups DEVANAGARI_scheme))"
  "\<forall>x \<in> set (groups DEVANAGARI_scheme). \<forall>y \<in> set (groups DEVANAGARI_scheme). x \<noteq> y \<longrightarrow>
      set (snd x) \<inter> set (snd y) = {}"
  unfolding DEVANAGARI_scheme_def by simp_all

lemma gujarati_groups:
  "distinct (map fst (groups GUJARATI_scheme))"
  "\<forall>x \<in> set (groups GUJARATI_scheme). \<forall>y \<in> set (groups GUJARATI_scheme). x \<noteq> y \<longrightarrow>
      set (snd x) \<inter> set (snd y) = {}"
  unfolding GUJARATI_scheme_def by simp_all

lemma kannada_groups:
  "distinct (map fst (groups KANNADA_scheme))"
  "\<forall>x \<in> set (groups KANNADA_scheme). \<forall>y \<in> set (groups KANNADA_scheme). x \<noteq> y \<longrightarrow>
      set (snd x) \<inter> set (snd y) = {}"
  unfolding KANNADA_scheme_def by simp_all

lemma malayalam_groups:
  "distinct (map fst (groups MALAYALAM_scheme))"
  "\<forall>x \<in> set (groups MALAYALAM_scheme). \<forall>y \<in> set (groups MALAYALAM_scheme). x \<noteq> y \<longrightarrow>
      set (snd x) \<inter> set (snd y) = {}"
  unfolding MALAYALAM_scheme_def by simp_all

lemma telugu_groups:
  "distinct (map fst (groups TELUGU_scheme))"
  "\<forall>x \<in> set (groups TELUGU_scheme). \<forall>y \<in> set (groups TELUGU_scheme). x \<noteq> y \<longrightarrow>
      set (snd x) \<inter> set (snd y) = {}"
  unfolding TELUGU_scheme_def by simp_all

lemma catalogue_order_irrelevant:
  assumes "SCHEMES name = Some f" and "\<not> is_roman f"
    and "mset (groups f') = mset (groups f)" and "is_roman f' = is_roman f"
  shows "SchemeMap_init f' t = SchemeMap_init f t"
proof -
  from SCHEMES_cases [OF assms(1)] assms(2) is_roman_catalogue
  have "f \<in> {BENGALI_scheme, DEVANAGARI_scheme, GUJARATI_scheme, KANNADA_scheme,
              MALAYALAM_scheme, TELUGU_scheme}"
    by auto
  then have "distinct (map fst (groups f)) \<and>
      (\<forall>x \<in> set (groups f). \<forall>y \<in> set (groups f). x \<noteq> y \<longrightarrow>
          set (snd x) \<inter> set (snd y) = {})"
    using bengali_groups devanagari_groups gujarati_groups kannada_groups malayalam_groups
      telugu_groups
    by (elim insertE emptyE) (simp_all only: simp_thms)
  with assms(3,4) show ?thesis by (intro SchemeMap_init_reordered) simp_all
qed

section \<open>The implicit vowel\<close>

text \<open>
  Claim C1, as the code has it. Let the scheme map in use have a segmental source and a
  romanized destination, and let the one character of the input be a key of
  \<open>consonants\<close> that is a key of neither \<open>marks\<close> nor \<open>virama\<close>. Then
  \<open>transliterate\<close> returns the form \<open>other\<close> gives for the character (the character
  itself when \<open>other\<close> has none), followed by the letter \<^verbatim>\<open>a\<close> of the flush after the
  scan. The scheme map is the one passed in, or the one built from the two names. (In a
  map built from two schemes every key of \<open>consonants\<close> is a key of \<open>other\<close>.)
\<close>

theorem single_consonant_implicit_vowel:
  assumes "resolve_scheme_map from_id to_id scheme_map = Inr sm"
    and "\<not> from_roman sm" and "to_roman sm"
    and "consonants sm [L] \<noteq> None"
    and "marks sm [L] = None" and "virama sm [L] = None"
  shows "transliterate [L] from_id to_id scheme_map
           = Inr (dict_get (other sm) [L] [L] @ ustr ''a'')"
  using assms by (simp add: transliterate_resolved brahmic_def brahmic_step_def)

text \<open>
  The example of the specification: U+0915 (Devanagari KA) from Devanagari to IAST is
  \<^verbatim>\<open>ka\<close>.
\<close>

theorem single_consonant_implicit_vowel_witness:
  "consonants (SchemeMap_init DEVANAGARI_scheme IAST_scheme) [0x0915] = Some [0x006B] \<and>
   transliterate [0x0915] (Some DEVANAGARI) (Some IAST) None = Inr (ustr ''ka'')"
  using single_consonant_implicit_vowel
    [of "Some DEVANAGARI" "Some IAST" None "SchemeMap_init DEVANAGARI_scheme IAST_scheme" "0x0915"]
  by (simp add: resolve_catalogue SCHEMES_entries is_roman_catalogue deva_iast_ka
      dict_get_def ustr_def)

text \<open>
  Without the side condition on \<open>marks\<close> the statement of C1 fails: the branch for
  \<open>marks\<close> is tried first. In the map from \<open>sign_and_consonant\<close> to
  \<open>sign_and_consonant_roman\<close> the character U+0940 is a consonant mapped to \<^verbatim>\<open>k\<close>, yet
  the output is the form of the vowel sign followed by \<^verbatim>\<open>a\<close>, not \<^verbatim>\<open>ka\<close>.
\<close>

theorem single_consonant_counterexample:
  "\<not> from_roman (SchemeMap_init sign_and_consonant sign_and_consonant_roman) \<and>
   to_roman (SchemeMap_init sign_and_consonant sign_and_consonant_roman) \<and>
   consonants (SchemeMap_init sign_and_consonant sign_and_consonant_roman) [0x0940]
     = Some [0x006B] \<and>
   other (SchemeMap_init sign_and_consonant sign_and_consonant_roman) [0x0940]
     = Some [0x006B] \<and>
   transliterate [0x0940] None None
       (Some (SchemeMap_init sign_and_consonant sign_and_consonant_roman))
     = Inr ([0x012B] @ ustr ''a'') \<and>
   transliterate [0x0940] None None
       (Some (SchemeMap_init sign_and_consonant sign_and_consonant_roman))
     \<noteq> Inr ([0x006B] @ ustr ''a'')"
  by (simp add: transliterate_def resolve_scheme_map_def brahmic_def brahmic_step_def
      sign_and_consonant_def sign_and_consonant_roman_def SchemeMap_init_def add_group_def
      endswith_def dict_of_pairs_def ustr_def Let_def)

text \<open>
  Claim C2. Let \<open>C\<close> be a key of \<open>consonants\<close> and \<open>L\<close> a key of \<open>marks\<close>, mapped to \<open>m\<close>.
  \<^item> The output for the two characters \<open>C\<close>, \<open>L\<close> is the mapped form of \<open>C\<close> followed at
    once by \<open>m\<close>: no \<^verbatim>\<open>a\<close> stands between them. (The mapped form of \<open>C\<close> is the one from
    \<open>other\<close>, with \<open>C\<close> as default, unless \<open>C\<close> is also a key of \<open>marks\<close> or \<open>virama\<close>. After
    \<open>m\<close> a flush follows only if the sign \<open>L\<close> is itself a key of \<open>consonants\<close>.)
  \<^item> After any text \<open>pre\<close>: the output for \<open>pre @ [C]\<close> is the buffer followed by the \<^verbatim>\<open>a\<close>
    of the flush when the destination is romanized, and the output for \<open>pre @ [C, L]\<close> is
    the same buffer followed by \<open>m\<close>: the sign takes the place of the \<^verbatim>\<open>a\<close>.
\<close>

theorem vowel_sign_overrides_implicit_vowel:
  assumes "consonants sm [C] \<noteq> None" and "marks sm [L] = Some m"
  shows "brahmic [C, L] sm =
           (case marks sm [C] of
              Some mc \<Rightarrow> mc
            | None \<Rightarrow> (case virama sm [C] of
                         Some vc \<Rightarrow> vc
                       | None \<Rightarrow> dict_get (other sm) [C] [C])) @ m @
           (if to_roman sm \<and> consonants sm [L] \<noteq> None then ustr ''a'' else []) \<and>
         (marks sm [C] = None \<and> virama sm [C] = None \<longrightarrow>
            brahmic [C, L] sm =
              dict_get (other sm) [C] [C] @ m @
              (if to_roman sm \<and> consonants sm [L] \<noteq> None then ustr ''a'' else [])) \<and>
         brahmic (pre @ [C]) sm =
           concat (fst (brahmic_loop sm (pre @ [C]) ([], False))) @
           (if to_roman sm then ustr ''a'' else []) \<and>
         brahmic (pre @ [C, L]) sm =
           concat (fst (brahmic_loop sm (pre @ [C]) ([], False))) @ m @
           (if to_roman sm \<and> consonants sm [L] \<noteq> None then ustr ''a'' else [])"
proof (intro conjI impI)
  show two: "brahmic [C, L] sm =
           (case marks sm [C] of
              Some mc \<Rightarrow> mc
            | None \<Rightarrow> (case virama sm [C] of
                         Some vc \<Rightarrow> vc
                       | None \<Rightarrow> dict_get (other sm) [C] [C])) @ m @
           (if to_roman sm \<and> consonants sm [L] \<noteq> None then ustr ''a'' else [])"
    using assms(2)
    by (auto simp: brahmic_def brahmic_step_def Let_def split: option.splits)
  assume "marks sm [C] = None \<and> virama sm [C] = None"
  with two show "brahmic [C, L] sm =
              dict_get (other sm) [C] [C] @ m @
              (if to_roman sm \<and> consonants sm [L] \<noteq> None then ustr ''a'' else [])"
    by simp
next
  show "brahmic (pre @ [C]) sm =
           concat (fst (brahmic_loop sm (pre @ [C]) ([], False))) @
           (if to_roman sm then ustr ''a'' else [])"
    using assms(1) by (simp add: brahmic_def Let_def brahmic_loop_snoc brahmic_step_flag)
next
  have "pre @ [C, L] = (pre @ [C]) @ [L]" by simp
  then have "brahmic (pre @ [C, L]) sm =
      (let st = brahmic_step sm (brahmic_loop sm (pre @ [C]) ([], False)) L
       in concat (fst st) @ (if snd st then ustr ''a'' else []))"
    by (simp only: brahmic_snoc)
  then show "brahmic (pre @ [C, L]) sm =
           concat (fst (brahmic_loop sm (pre @ [C]) ([], False))) @ m @
           (if to_roman sm \<and> consonants sm [L] \<noteq> None then ustr ''a'' else [])"
    using assms(2) by (simp add: brahmic_step_def Let_def)
qed

text \<open>
  The example of the specification: U+0915 U+0940 from Devanagari to IAST is \<^verbatim>\<open>k\<close>
  followed by U+012B (i with macron); the bare U+0915 is \<^verbatim>\<open>ka\<close>.
\<close>

theorem vowel_sign_overrides_implicit_vowel_witness:
  "consonants (SchemeMap_init DEVANAGARI_scheme IAST_scheme) [0x0915] = Some [0x006B] \<and>
   marks (SchemeMap_init DEVANAGARI_scheme IAST_scheme) [0x0940] = Some [0x012B] \<and>
   brahmic [0x0915, 0x0940] (SchemeMap_init DEVANAGARI_scheme IAST_scheme) = [0x006B, 0x012B] \<and>
   brahmic [0x0915] (SchemeMap_init DEVANAGARI_scheme IAST_scheme) = ustr ''ka'' \<and>
   transliterate [0x0915, 0x0940] (Some DEVANAGARI) (Some IAST) None = Inr [0x006B, 0x012B]"
  using vowel_sign_overrides_implicit_vowel
    [of "SchemeMap_init DEVANAGARI_scheme IAST_scheme" "0x0915" "0x0940" "[0x012B]" "[]"]
  by (simp add: transliterate_def resolve_catalogue SCHEMES_entries is_roman_catalogue
      deva_iast_ka deva_iast_sign_ii brahmic_step_def dict_get_def ustr_def)

lemma SchemeMap_init_virama_consonants:
  "SchemeMap_init
     \<lparr>groups = [(''vowels'', fv), (''marks'', fm), (''virama'', fi), (''other'', fo),
                (''consonants'', fc), (''symbols'', fs)], is_roman = fr\<rparr>
     \<lparr>groups = [(''virama'', ti), (''consonants'', tc)], is_roman = tr\<rparr>
   = \<lparr>marks = Map.empty, virama = dict_of_pairs (zip fi ti),
      consonants = Map.empty ++ dict_of_pairs (zip fc tc),
      other = Map.empty ++ dict_of_pairs (zip fc tc),
      from_roman = fr, to_roman = tr\<rparr>"
  by (simp add: SchemeMap_init_def add_group_def endswith_def Let_def)

lemma deva_dotted:
  "marks (SchemeMap_init DEVANAGARI_scheme dotted_roman) [0x0915] = None"
  "virama (SchemeMap_init DEVANAGARI_scheme dotted_roman) [0x0915] = None"
  "consonants (SchemeMap_init DEVANAGARI_scheme dotted_roman) [0x0915] = Some [0x006B]"
  "other (SchemeMap_init DEVANAGARI_scheme dotted_roman) [0x0915] = Some [0x006B]"
  "marks (SchemeMap_init DEVANAGARI_scheme dotted_roman) [0x094D] = None"
  "virama (SchemeMap_init DEVANAGARI_scheme dotted_roman) [0x094D] = Some [0x00B7]"
  "consonants (SchemeMap_init DEVANAGARI_scheme dotted_roman) [0x094D] = None"
  unfolding DEVANAGARI_scheme_def dotted_roman_def SchemeMap_init_virama_consonants
    SchemeMap.select_convs dict_of_pairs_eq
  by (simp_all add: map_add_def)

text \<open>
  Claim C3 says that the mapped form of the virama is empty whenever the destination is
  romanized. That is a fact of the catalogue, not of the code: \<open>dotted_roman\<close> is a
  romanized scheme, the map from Devanagari to it sends the virama U+094D to U+00B7, and
  U+0915 U+094D becomes \<^verbatim>\<open>k\<close> followed by U+00B7, not the bare \<^verbatim>\<open>k\<close>.
\<close>

theorem virama_form_counterexample:
  "is_roman dotted_roman \<and>
   \<not> from_roman (SchemeMap_init DEVANAGARI_scheme dotted_roman) \<and>
   to_roman (SchemeMap_init DEVANAGARI_scheme dotted_roman) \<and>
   consonants (SchemeMap_init DEVANAGARI_scheme dotted_roman) [0x0915] = Some [0x006B] \<and>
   virama (SchemeMap_init DEVANAGARI_scheme dotted_roman) [0x094D] = Some [0x00B7] \<and>
   transliterate [0x0915, 0x094D] None None
       (Some (SchemeMap_init DEVANAGARI_scheme dotted_roman))
     = Inr [0x006B, 0x00B7] \<and>
   transliterate [0x0915, 0x094D] None None
       (Some (SchemeMap_init DEVANAGARI_scheme dotted_roman))
     \<noteq> Inr (ustr ''k'')"
proof -
  have "is_roman dotted_roman" by (simp add: dotted_roman_def)
  then show ?thesis
    by (simp add: transliterate_def resolve_given is_roman_catalogue deva_dotted
        brahmic_def brahmic_step_def dict_get_def ustr_def)
qed

text \<open>
  Claim C3, as the code has it. Let \<open>C\<close> be a key of \<open>consonants\<close> and \<open>L\<close> a key of
  \<open>virama\<close>, mapped to \<open>v\<close>.
  \<^item> The output for the two characters \<open>C\<close>, \<open>L\<close> is the mapped form of \<open>C\<close> followed at
    once by \<open>v\<close>: no \<^verbatim>\<open>a\<close> is written for the consonant. (If \<open>L\<close> is also a key of \<open>marks\<close>,
    that branch comes first and its form stands in place of \<open>v\<close>. A flush follows only if
    \<open>L\<close> is itself a key of \<open>consonants\<close>.)
  \<^item> After any text \<open>pre\<close>: the output for \<open>pre @ [C]\<close> is the buffer followed by the \<^verbatim>\<open>a\<close>
    of the flush when the destination is romanized, and the output for \<open>pre @ [C, L]\<close> is
    the same buffer followed by the form of \<open>L\<close>, without that \<^verbatim>\<open>a\<close>.
  \<^item> When the scheme map is built for a destination that is a romanized scheme of the
    catalogue, \<open>v\<close> is the empty string; then the two characters give the bare consonant.
\<close>

theorem virama_suppresses_implicit_vowel:
  assumes "consonants sm [C] \<noteq> None" and "virama sm [L] = Some v"
  shows "brahmic [C, L] sm =
           (case marks sm [C] of
              Some mc \<Rightarrow> mc
            | None \<Rightarrow> (case virama sm [C] of
                         Some vc \<Rightarrow> vc
                       | None \<Rightarrow> dict_get (other sm) [C] [C])) @
           (case marks sm [L] of Some m \<Rightarrow> m | None \<Rightarrow> v) @
           (if to_roman sm \<and> consonants sm [L] \<noteq> None then ustr ''a'' else []) \<and>
         (marks sm [C] = None \<and> virama sm [C] = None \<and> marks sm [L] = None \<and>
          consonants sm [L] = None \<longrightarrow>
            brahmic [C, L] sm = dict_get (other sm) [C] [C] @ v) \<and>
         brahmic (pre @ [C]) sm =
           concat (fst (brahmic_loop sm (pre @ [C]) ([], False))) @
           (if to_roman sm then ustr ''a'' else []) \<and>
         brahmic (pre @ [C, L]) sm =
           concat (fst (brahmic_loop sm (pre @ [C]) ([], False))) @
           (case marks sm [L] of Some m \<Rightarrow> m | None \<Rightarrow> v) @
           (if to_roman sm \<and> consonants sm [L] \<noteq> None then ustr ''a'' else []) \<and>
         (\<forall>to_name to_scheme from_scheme.
            SCHEMES to_name = Some to_scheme \<and> is_roman to_scheme \<and>
            sm = SchemeMap_init from_scheme to_scheme \<longrightarrow> v = [])"
proof (intro conjI impI allI)
  show two: "brahmic [C, L] sm =
           (case marks sm [C] of
              Some mc \<Rightarrow> mc
            | None \<Rightarrow> (case virama sm [C] of
                         Some vc \<Rightarrow> vc
                       | None \<Rightarrow> dict_get (other sm) [C] [C])) @
           (case marks sm [L] of Some m \<Rightarrow> m | None \<Rightarrow> v) @
           (if to_roman sm \<and> consonants sm [L] \<noteq> None then ustr ''a'' else [])"
    using assms(2)
    by (auto simp: brahmic_def brahmic_step_def Let_def split: option.splits)
  assume "marks sm [C] = None \<and> virama sm [C] = None \<and> marks sm [L] = None \<and>
          consonants sm [L] = None"
  with two show "brahmic [C, L] sm = dict_get (other sm) [C] [C] @ v"
    by simp
next
  show "brahmic (pre @ [C]) sm =
           concat (fst (brahmic_loop sm (pre @ [C]) ([], False))) @
           (if to_roman sm then ustr ''a'' else [])"
    using assms(1) by (simp add: brahmic_def Let_def brahmic_loop_snoc brahmic_step_flag)
next
  have "pre @ [C, L] = (pre @ [C]) @ [L]" by simp
  then have "brahmic (pre @ [C, L]) sm =
      (let st = brahmic_step sm (brahmic_loop sm (pre @ [C]) ([], False)) L
       in concat (fst st) @ (if snd st then ustr ''a'' else []))"
    by (simp only: brahmic_snoc)
  then show "brahmic (pre @ [C, L]) sm =
           concat (fst (brahmic_loop sm (pre @ [C]) ([], False))) @
           (case marks sm [L] of Some m \<Rightarrow> m | None \<Rightarrow> v) @
           (if to_roman sm \<and> consonants sm [L] \<noteq> None then ustr ''a'' else [])"
    using assms(2) by (auto simp: brahmic_step_def Let_def split: option.splits)
next
  fix to_name to_scheme from_scheme
  assume a: "SCHEMES to_name = Some to_scheme \<and> is_roman to_scheme \<and>
            sm = SchemeMap_init from_scheme to_scheme"
  then have "map_of (groups to_scheme) ''virama'' = Some [[]]"
    by (intro catalogue_roman_virama [of to_name]) simp_all
  with virama_init_value [of from_scheme to_scheme "[L]" v] assms(2) a
  show "v = []" by simp
qed

text \<open>
  The example of the specification: U+0915 U+094D from Devanagari to IAST is \<^verbatim>\<open>k\<close>; the
  bare U+0915 is \<^verbatim>\<open>ka\<close>.
\<close>

theorem virama_suppresses_implicit_vowel_witness:
  "consonants (SchemeMap_init DEVANAGARI_scheme IAST_scheme) [0x0915] = Some [0x006B] \<and>
   virama (SchemeMap_init DEVANAGARI_scheme IAST_scheme) [0x094D] = Some [] \<and>
   brahmic [0x0915, 0x094D] (SchemeMap_init DEVANAGARI_scheme IAST_scheme) = ustr ''k'' \<and>
   brahmic [0x0915] (SchemeMap_init DEVANAGARI_scheme IAST_scheme) = ustr ''ka'' \<and>
   transliterate [0x0915, 0x094D] (Some DEVANAGARI) (Some IAST) None = Inr (ustr ''k'')"
  using virama_suppresses_implicit_vowel
    [of "SchemeMap_init DEVANAGARI_scheme IAST_scheme" "0x0915" "0x094D" "[]" "[]"]
  by (simp add: transliterate_def resolve_catalogue SCHEMES_entries is_roman_catalogue
      deva_iast_ka deva_iast_virama brahmic_step_def dict_get_def ustr_def)

section \<open>Characters without an entry\<close>

text \<open>
  In the segmental conversion a character that is a key of none of \<open>marks\<close>,
  \<open>virama\<close> and \<open>other\<close> is appended as it is (after the pending \<^verbatim>\<open>a\<close>, if any), and so
  occurs in the output.
\<close>

lemma brahmic_step_unmapped:
  assumes "marks sm [L] = None" and "virama sm [L] = None" and "other sm [L] = None"
  shows "fst (brahmic_step sm (buf, had_consonant) L)
           = (if had_consonant then buf @ [ustr ''a''] else buf) @ [[L]]"
  using assms by (simp add: brahmic_step_def dict_get_def)

lemma brahmic_unmapped:
  assumes "marks sm [L] = None" and "virama sm [L] = None" and "other sm [L] = None"
  shows "\<exists>pre post. brahmic (xs @ [L] @ ys) sm = pre @ [L] @ post"
proof -
  obtain buf had where st: "brahmic_loop sm xs ([], False) = (buf, had)"
    by (cases "brahmic_loop sm xs ([], False)")
  define st1 where "st1 = brahmic_step sm (buf, had) L"
  have grow: "\<exists>more. fst (brahmic_loop sm zs st) = fst st @ more" for zs st
  proof (induction zs arbitrary: st)
    case Nil
    show ?case by simp
  next
    case (Cons z zs)
    obtain more where "fst (brahmic_loop sm zs (brahmic_step sm st z)) = fst (brahmic_step sm st z) @ more"
      using Cons.IH by blast
    moreover have "\<exists>m. fst (brahmic_step sm st z) = fst st @ m"
      by (simp add: brahmic_step_def Let_def split: option.splits)
    ultimately show ?case by auto
  qed
  obtain more where more: "fst (brahmic_loop sm ys st1) = fst st1 @ more"
    using grow by blast
  have "fst st1 = (if had then buf @ [ustr ''a''] else buf) @ [[L]]"
    unfolding st1_def using assms by (rule brahmic_step_unmapped)
  then have "brahmic (xs @ [L] @ ys) sm =
      concat (if had then buf @ [ustr ''a''] else buf) @ [L] @
        concat (more @ (if snd (brahmic_loop sm ys st1) then [ustr ''a''] else []))"
    using more by (simp add: brahmic_def brahmic_loop_append st st1_def Let_def)
  then show ?thesis by blast
qed

lemma hk_deva_space:
  "marks (SchemeMap_init HK_scheme DEVANAGARI_scheme) [0x0020] = None"
  "virama (SchemeMap_init HK_scheme DEVANAGARI_scheme) [0x0020] = None"
  "consonants (SchemeMap_init HK_scheme DEVANAGARI_scheme) [0x0020] = None"
  "other (SchemeMap_init HK_scheme DEVANAGARI_scheme) [0x0020] = None"
  unfolding HK_scheme_def DEVANAGARI_scheme_def SchemeMap_init_six SchemeMap.select_convs
    dict_of_pairs_eq
  by (simp_all add: map_add_def)

text \<open>
  Claim C4 asks the same of a romanized source. There the code returns the empty string:
  the blank U+0020 is a key of no sub-map of the map from HK to Devanagari, and the
  conversion of the one-character text U+0020 is empty, so the character is dropped.
\<close>

theorem roman_source_drops_unmapped:
  "marks (SchemeMap_init HK_scheme DEVANAGARI_scheme) [0x0020] = None \<and>
   virama (SchemeMap_init HK_scheme DEVANAGARI_scheme) [0x0020] = None \<and>
   consonants (SchemeMap_init HK_scheme DEVANAGARI_scheme) [0x0020] = None \<and>
   other (SchemeMap_init HK_scheme DEVANAGARI_scheme) [0x0020] = None \<and>
   transliterate [0x0020] (Some HK) (Some DEVANAGARI) None = Inr []"
  by (simp add: hk_deva_space transliterate_def resolve_catalogue SCHEMES_entries
      is_roman_catalogue roman_def)


section \<open>The romanized conversion\<close>

text \<open>
  Claim C5. Whenever the scheme map in use (passed in, or built from the two names) has a
  romanized source, \<open>roman\<close> returns the empty string and so does \<open>transliterate\<close>,
  for every input text.
\<close>

theorem roman_source_returns_empty:
  assumes "resolve_scheme_map from_id to_id scheme_map = Inr sm" and "from_roman sm"
  shows "roman data sm = [] \<and> transliterate data from_id to_id scheme_map = Inr []"
  using assms by (simp add: transliterate_resolved roman_def)

text \<open>From HK to Devanagari, the text \<^verbatim>\<open>ka\<close> gives the empty string.\<close>

theorem roman_source_returns_empty_witness:
  "from_roman (SchemeMap_init HK_scheme DEVANAGARI_scheme) \<and>
   transliterate (ustr ''ka'') (Some HK) (Some DEVANAGARI) None = Inr []"
  using roman_source_returns_empty
    [of "Some HK" "Some DEVANAGARI" None "SchemeMap_init HK_scheme DEVANAGARI_scheme" "ustr ''ka''"]
  by (simp add: resolve_catalogue SCHEMES_entries is_roman_catalogue)

text \<open>
  Claim C6 asks that a text of mapped consonants and vowel signs comes back unchanged
  from the romanized scheme. On the code it does not: U+0915 U+0940 (a consonant and a
  vowel sign) becomes \<^verbatim>\<open>k\<close> U+012B in IAST, and the way back, from IAST to Devanagari,
  gives the empty string.
\<close>

theorem round_trip_lost:
  "consonants (SchemeMap_init DEVANAGARI_scheme IAST_scheme) [0x0915] = Some [0x006B] \<and>
   marks (SchemeMap_init DEVANAGARI_scheme IAST_scheme) [0x0940] = Some [0x012B] \<and>
   transliterate [0x0915, 0x0940] (Some DEVANAGARI) (Some IAST) None = Inr [0x006B, 0x012B] \<and>
   transliterate [0x006B, 0x012B] (Some IAST) (Some DEVANAGARI) None = Inr []"
  by (simp add: transliterate_def resolve_catalogue SCHEMES_entries is_roman_catalogue
      deva_iast_ka deva_iast_sign_ii brahmic_def brahmic_step_def dict_get_def roman_def)


section \<open>Errors\<close>

lemma SCHEMES_getitem_known:
  "key \<in> Some ` dom SCHEMES \<Longrightarrow> \<exists>s. SCHEMES_getitem key = Inr s"
  by (auto simp: SCHEMES_getitem_def)

lemma SCHEMES_getitem_unknown:
  "key \<notin> Some ` dom SCHEMES \<Longrightarrow> SCHEMES_getitem key = Inl (KeyError key)"
  by (cases key) (auto simp: SCHEMES_getitem_def image_iff split: option.splits)

text \<open>
  Claim C7. \<open>KeyError\<close> is the only error of the model. Without a scheme map passed in,
  a source identifier that is no key of the catalogue gives \<open>KeyError\<close> of that
  identifier; a known source and an unknown destination give \<open>KeyError\<close> of the
  destination; in both cases nothing is converted. In every other case (a scheme map is
  passed in, or both identifiers are keys of the catalogue) the call returns a text.
\<close>

theorem lookup_failure_only_error:
  "(scheme_map = None \<and> from_id \<notin> Some ` dom SCHEMES \<longrightarrow>
      transliterate data from_id to_id scheme_map = Inl (KeyError from_id)) \<and>
   (scheme_map = None \<and> from_id \<in> Some ` dom SCHEMES \<and> to_id \<notin> Some ` dom SCHEMES \<longrightarrow>
      transliterate data from_id to_id scheme_map = Inl (KeyError to_id)) \<and>
   (scheme_map \<noteq> None \<or> from_id \<in> Some ` dom SCHEMES \<and> to_id \<in> Some ` dom SCHEMES \<longrightarrow>
      (\<exists>out. transliterate data from_id to_id scheme_map = Inr out))"
proof (intro conjI impI)
  assume "scheme_map = None \<and> from_id \<notin> Some ` dom SCHEMES"
  then show "transliterate data from_id to_id scheme_map = Inl (KeyError from_id)"
    by (simp add: transliterate_def resolve_scheme_map_def SCHEMES_getitem_unknown)
next
  assume a: "scheme_map = None \<and> from_id \<in> Some ` dom SCHEMES \<and> to_id \<notin> Some ` dom SCHEMES"
  then obtain s where "SCHEMES_getitem from_id = Inr s"
    using SCHEMES_getitem_known by blast
  with a show "transliterate data from_id to_id scheme_map = Inl (KeyError to_id)"
    by (simp add: transliterate_def resolve_scheme_map_def SCHEMES_getitem_unknown)
next
  assume a: "scheme_map \<noteq> None \<or> from_id \<in> Some ` dom SCHEMES \<and> to_id \<in> Some ` dom SCHEMES"
  show "\<exists>out. transliterate data from_id to_id scheme_map = Inr out"
  proof (cases scheme_map)
    case (Some sm)
    then show ?thesis by (simp add: transliterate_def resolve_scheme_map_def)
  next
    case None
    with a obtain fs ts where "SCHEMES_getitem from_id = Inr fs" "SCHEMES_getitem to_id = Inr ts"
      using SCHEMES_getitem_known by blast
    with None show ?thesis by (simp add: transliterate_def resolve_scheme_map_def)
  qed
qed

text \<open>
  An unknown source name, the default \<^verbatim>\<open>None\<close> as destination, and two names of the
  catalogue.
\<close>

theorem lookup_failure_only_error_witness:
  "transliterate [0x0915] (Some ''latin'') (Some IAST) None = Inl (KeyError (Some ''latin'')) \<and>
   transliterate [0x0915] (Some DEVANAGARI) None None = Inl (KeyError None) \<and>
   (\<exists>out. transliterate [0x0915] (Some DEVANAGARI) (Some IAST) None = Inr out)"
  using lookup_failure_only_error [of None "Some ''latin''" "[0x0915]" "Some IAST"]
    lookup_failure_only_error [of None "Some DEVANAGARI" "[0x0915]" None]
    lookup_failure_only_error [of None "Some DEVANAGARI" "[0x0915]" "Some IAST"]
  by (simp add: dom_SCHEMES BENGALI_def DEVANAGARI_def GUJARATI_def HK_def IAST_def
      KANNADA_def MALAYALAM_def SLP1_def TELUGU_def image_iff)

section \<open>Pairing the groups\<close>

text \<open>
  Every entry of a sub-map comes from the item of some group of the source and the group
  of the same name of the destination, at a position that both groups have.
\<close>

lemma entries_add_group:
  assumes old: "\<And>k v. marks sm k = Some v \<or> virama sm k = Some v \<or> consonants sm k = Some v \<or>
                  other sm k = Some v \<Longrightarrow> Q k v"
    and new: "\<And>to_chars k v. map_of (groups t) (fst item) = Some to_chars \<Longrightarrow>
                  dict_of_pairs (zip (snd item) to_chars) k = Some v \<Longrightarrow> Q k v"
    and e: "marks (add_group t item sm) k = Some v \<or> virama (add_group t item sm) k = Some v \<or>
            consonants (add_group t item sm) k = Some v \<or> other (add_group t item sm) k = Some v"
  shows "Q k v"
proof (cases "map_of (groups t) (fst item)")
  case None
  then have "add_group t item sm = sm" by (simp add: add_group_def)
  with e old show ?thesis by simp
next
  case (Some to_chars)
  from e have "dict_of_pairs (zip (snd item) to_chars) k = Some v \<or>
      (marks sm k = Some v \<or> virama sm k = Some v \<or> consonants sm k = Some v \<or>
       other sm k = Some v)"
    by (auto simp: add_group_def Some Let_def split: if_splits)
  then show ?thesis using old new [OF Some] by blast
qed

lemma entries_fold:
  assumes old: "\<And>k v. marks sm k = Some v \<or> virama sm k = Some v \<or> consonants sm k = Some v \<or>
                  other sm k = Some v \<Longrightarrow> Q k v"
    and new: "\<And>item to_chars k v. item \<in> set gs \<Longrightarrow>
                  map_of (groups t) (fst item) = Some to_chars \<Longrightarrow>
                  dict_of_pairs (zip (snd item) to_chars) k = Some v \<Longrightarrow> Q k v"
    and e: "marks (fold (add_group t) gs sm) k = Some v \<or>
            virama (fold (add_group t) gs sm) k = Some v \<or>
            consonants (fold (add_group t) gs sm) k = Some v \<or>
            other (fold (add_group t) gs sm) k = Some v"
  shows "Q k v"
  using old new e
proof (induction gs arbitrary: sm)
  case Nil
  then show ?case by simp
next
  case (Cons g gs)
  show ?case
  proof (rule Cons.IH [of "add_group t g sm"])
    fix k v
    assume "marks (add_group t g sm) k = Some v \<or> virama (add_group t g sm) k = Some v \<or>
            consonants (add_group t g sm) k = Some v \<or> other (add_group t g sm) k = Some v"
    then show "Q k v"
      by (rule entries_add_group [where Q = Q, rotated 2]) (auto intro: Cons.prems(1,2))
  next
    fix item to_chars k v
    assume "item \<in> set gs" "map_of (groups t) (fst item) = Some to_chars"
      "dict_of_pairs (zip (snd item) to_chars) k = Some v"
    then show "Q k v" using Cons.prems(2) [of item to_chars k v] by simp
  next
    show "marks (fold (add_group t) gs (add_group t g sm)) k = Some v \<or>
          virama (fold (add_group t) gs (add_group t g sm)) k = Some v \<or>
          consonants (fold (add_group t) gs (add_group t g sm)) k = Some v \<or>
          other (fold (add_group t) gs (add_group t g sm)) k = Some v"
      using Cons.prems(3) by simp
  qed
qed

lemma entry_is_positional_pair:
  assumes "marks (SchemeMap_init f t) k = Some v \<or> virama (SchemeMap_init f t) k = Some v \<or>
           consonants (SchemeMap_init f t) k = Some v \<or> other (SchemeMap_init f t) k = Some v"
  shows "\<exists>grp ks vs i. (grp, ks) \<in> set (groups f) \<and> map_of (groups t) grp = Some vs \<and>
           i < length ks \<and> i < length vs \<and> k = ks ! i \<and> v = vs ! i"
proof (rule entries_fold [where t = t and gs = "groups f" and k = k and v = v])
  show "marks (fold (add_group t) (groups f) \<lparr>marks = Map.empty, virama = Map.empty,
            consonants = Map.empty, other = Map.empty, from_roman = is_roman f,
            to_roman = is_roman t\<rparr>) k = Some v \<or>
        virama (fold (add_group t) (groups f) \<lparr>marks = Map.empty, virama = Map.empty,
            consonants = Map.empty, other = Map.empty, from_roman = is_roman f,
            to_roman = is_roman t\<rparr>) k = Some v \<or>
        consonants (fold (add_group t) (groups f) \<lparr>marks = Map.empty, virama = Map.empty,
            consonants = Map.empty, other = Map.empty, from_roman = is_roman f,
            to_roman = is_roman t\<rparr>) k = Some v \<or>
        other (fold (add_group t) (groups f) \<lparr>marks = Map.empty, virama = Map.empty,
            consonants = Map.empty, other = Map.empty, from_roman = is_roman f,
            to_roman = is_roman t\<rparr>) k = Some v"
    using assms by (simp only: SchemeMap_init_def)
next
  fix k v
  assume "marks \<lparr>marks = Map.empty, virama = Map.empty,
            consonants = Map.empty, other = Map.empty, from_roman = is_roman f,
            to_roman = is_roman t\<rparr> k = Some v \<or>
          virama \<lparr>marks = Map.empty, virama = Map.empty,
            consonants = Map.empty, other = Map.empty, from_roman = is_roman f,
            to_roman = is_roman t\<rparr> k = Some v \<or>
          consonants \<lparr>marks = Map.empty, virama = Map.empty,
            consonants = Map.empty, other = Map.empty, from_roman = is_roman f,
            to_roman = is_roman t\<rparr> k = Some v \<or>
          other \<lparr>marks = Map.empty, virama = Map.empty,
            consonants = Map.empty, other = Map.empty, from_roman = is_roman f,
            to_roman = is_roman t\<rparr> k = Some v"
  then show "\<exists>grp ks vs i. (grp, ks) \<in> set (groups f) \<and> map_of (groups t) grp = Some vs \<and>
           i < length ks \<and> i < length vs \<and> k = ks ! i \<and> v = vs ! i"
    by simp
next
  fix item to_chars k v
  assume item: "item \<in> set (groups f)" and t: "map_of (groups t) (fst item) = Some to_chars"
    and kv: "dict_of_pairs (zip (snd item) to_chars) k = Some v"
  from kv have "(k, v) \<in> set (zip (snd item) to_chars)" by (rule dict_of_pairs_in_set)
  then obtain i where "i < length (snd item)" "i < length to_chars" "k = snd item ! i"
      "v = to_chars ! i"
    by (auto simp: in_set_zip)
  moreover have "(fst item, snd item) \<in> set (groups f)" using item by simp
  ultimately show "\<exists>grp ks vs i. (grp, ks) \<in> set (groups f) \<and>
      map_of (groups t) grp = Some vs \<and>
      i < length ks \<and> i < length vs \<and> k = ks ! i \<and> v = vs ! i"
    using t by blast
qed

text \<open>
  Conversely every such position is stored: \<open>marks\<close>, \<open>other\<close> and \<open>consonants\<close> only
  grow, and \<open>virama\<close> is assigned by the group of that name alone.
\<close>

lemma dom_grows_add_group:
  "dom (marks sm) \<subseteq> dom (marks (add_group t item sm))"
  "dom (other sm) \<subseteq> dom (other (add_group t item sm))"
  "dom (consonants sm) \<subseteq> dom (consonants (add_group t item sm))"
  by (auto simp: add_group_def Let_def split: option.splits)

lemma dom_grows_fold:
  "dom (marks sm) \<subseteq> dom (marks (fold (add_group t) gs sm)) \<and>
   dom (other sm) \<subseteq> dom (other (fold (add_group t) gs sm)) \<and>
   dom (consonants sm) \<subseteq> dom (consonants (fold (add_group t) gs sm))"
proof (induction gs arbitrary: sm)
  case Nil
  show ?case by simp
next
  case (Cons g gs)
  from Cons.IH [of "add_group t g sm"] dom_grows_add_group [of sm t g]
  show ?case unfolding fold_simps o_apply by blast
qed

lemma virama_kept_add_group:
  "fst item \<noteq> ''virama'' \<Longrightarrow> virama (add_group t item sm) = virama sm"
  by (simp add: add_group_def Let_def split: option.splits)

lemma virama_kept_fold:
  "''virama'' \<notin> fst ` set gs \<Longrightarrow> virama (fold (add_group t) gs sm) = virama sm"
proof (induction gs arbitrary: sm)
  case Nil
  show ?case by simp
next
  case (Cons g gs)
  then have "fst g \<noteq> ''virama''" and "''virama'' \<notin> fst ` set gs" by auto
  then show ?case using Cons.IH [of "add_group t g sm"] by (simp add: virama_kept_add_group)
qed

lemma add_group_stores:
  assumes "map_of (groups t) grp = Some vs"
  shows "dom (dict_of_pairs (zip ks vs)) \<subseteq>
           dom (if endswith grp ''marks'' then marks (add_group t (grp, ks) sm)
                else if grp = ''virama'' then virama (add_group t (grp, ks) sm)
                else other (add_group t (grp, ks) sm))"
    and "\<not> endswith grp ''marks'' \<Longrightarrow> grp \<noteq> ''virama'' \<Longrightarrow> endswith grp ''consonants'' \<Longrightarrow>
         dom (dict_of_pairs (zip ks vs)) \<subseteq> dom (consonants (add_group t (grp, ks) sm))"
  using assms by (auto simp: add_group_def Let_def)

lemma paired_position_stored:
  assumes g: "(grp, ks) \<in> set (groups f)" and t: "map_of (groups t) grp = Some vs"
    and i: "i < length ks" "i < length vs"
    and d: "grp = ''virama'' \<longrightarrow> distinct (map fst (groups f))"
  shows "ks ! i \<in> dom (if endswith grp ''marks'' then marks (SchemeMap_init f t)
                        else if grp = ''virama'' then virama (SchemeMap_init f t)
                        else other (SchemeMap_init f t))"
    and "\<not> endswith grp ''marks'' \<Longrightarrow> grp \<noteq> ''virama'' \<Longrightarrow> endswith grp ''consonants'' \<Longrightarrow>
         ks ! i \<in> dom (consonants (SchemeMap_init f t))"
proof -
  obtain pre post where split: "groups f = pre @ (grp, ks) # post"
    using g by (auto dest: split_list)
  define sm0 where "sm0 = fold (add_group t) pre
     \<lparr>marks = Map.empty, virama = Map.empty, consonants = Map.empty, other = Map.empty,
      from_roman = is_roman f, to_roman = is_roman t\<rparr>"
  define sm1 where "sm1 = add_group t (grp, ks) sm0"
  have init: "SchemeMap_init f t = fold (add_group t) post sm1"
    by (simp add: SchemeMap_init_def split sm0_def sm1_def)
  have "ks ! i \<in> set (take (min (length ks) (length vs)) ks)"
    using i by (auto simp: in_set_conv_nth)
  then have k: "ks ! i \<in> dom (dict_of_pairs (zip ks vs))"
    by (simp only: dom_sub_map)
  have post: "grp = ''virama'' \<Longrightarrow> ''virama'' \<notin> fst ` set post"
    using d split by auto
  have grows: "dom (marks sm1) \<subseteq> dom (marks (SchemeMap_init f t))"
      "dom (other sm1) \<subseteq> dom (other (SchemeMap_init f t))"
      "dom (consonants sm1) \<subseteq> dom (consonants (SchemeMap_init f t))"
    unfolding init using dom_grows_fold [of sm1 t post] by simp_all
  have stored: "ks ! i \<in> dom (if endswith grp ''marks'' then marks sm1
                        else if grp = ''virama'' then virama sm1 else other sm1)"
    using k add_group_stores(1) [OF t, of ks sm0] unfolding sm1_def by blast
  show "ks ! i \<in> dom (if endswith grp ''marks'' then marks (SchemeMap_init f t)
                        else if grp = ''virama'' then virama (SchemeMap_init f t)
                        else other (SchemeMap_init f t))"
  proof (cases "endswith grp ''marks''")
    case True
    with stored grows(1) show ?thesis by auto
  next
    case no_marks: False
    show ?thesis
    proof (cases "grp = ''virama''")
      case True
      then have "virama (SchemeMap_init f t) = virama sm1"
        unfolding init using post by (intro virama_kept_fold)
      with stored no_marks True show ?thesis by simp
    next
      case False
      with stored no_marks grows(2) show ?thesis by auto
    qed
  qed
  show "ks ! i \<in> dom (consonants (SchemeMap_init f t))"
    if "\<not> endswith grp ''marks''" "grp \<noteq> ''virama''" "endswith grp ''consonants''"
  proof -
    have "ks ! i \<in> dom (consonants sm1)"
      using k add_group_stores(2) [OF t that, of ks sm0] unfolding sm1_def by blast
    with grows(3) show ?thesis by blast
  qed
qed

lemma SchemeMap_init_consonants_only:
  "SchemeMap_init
     \<lparr>groups = [(''vowels'', fv), (''marks'', fm), (''virama'', fi), (''other'', fo),
                (''consonants'', fc), (''symbols'', fs)], is_roman = fr\<rparr>
     \<lparr>groups = [(''consonants'', tc)], is_roman = tr\<rparr>
   = \<lparr>marks = Map.empty, virama = Map.empty,
      consonants = Map.empty ++ dict_of_pairs (zip fc tc),
      other = Map.empty ++ dict_of_pairs (zip fc tc),
      from_roman = fr, to_roman = tr\<rparr>"
  by (simp add: SchemeMap_init_def add_group_def endswith_def Let_def)

lemma beng_short_ba:
  "consonants (SchemeMap_init BENGALI_scheme short_roman) [0x09AC] = Some [0x0062]"
  "other (SchemeMap_init BENGALI_scheme short_roman) [0x09AC] = Some [0x0062]"
  unfolding BENGALI_scheme_def short_roman_def SchemeMap_init_consonants_only
    SchemeMap.select_convs dict_of_pairs_eq
  by (simp_all add: map_add_def)

lemma bengali_consonants:
  "\<exists>cs. map_of (groups BENGALI_scheme) ''consonants'' = Some cs \<and> length cs = 36 \<and>
     cs ! 0 = [0x0995] \<and> cs ! 28 = [0x09AC]"
  by (simp add: BENGALI_scheme_def)

lemma short_roman_consonants:
  "\<exists>vs. map_of (groups short_roman) ''consonants'' = Some vs \<and> length vs = 23"
  by (simp add: short_roman_def)

text \<open>
  Claim C8 says that the characters of the longer group beyond the length of the shorter
  one are in no sub-map. That fails when such a character also occurs at a paired
  position. The Bengali table has 36 consonants, \<open>short_roman\<close> has 23; the Bengali
  consonant at index 28 is U+09AC, beyond the pairing, and it is a key of \<open>consonants\<close>
  and of \<open>other\<close> all the same, because the table has it at index 22 as well.
\<close>

theorem truncation_counterexample:
  "length (the (map_of (groups BENGALI_scheme) ''consonants'')) = 36 \<and>
   length (the (map_of (groups short_roman) ''consonants'')) = 23 \<and>
   the (map_of (groups BENGALI_scheme) ''consonants'') ! 28 = [0x09AC] \<and>
   consonants (SchemeMap_init BENGALI_scheme short_roman) [0x09AC] = Some [0x0062] \<and>
   other (SchemeMap_init BENGALI_scheme short_roman) [0x09AC] = Some [0x0062]"
proof -
  obtain cs vs where "map_of (groups BENGALI_scheme) ''consonants'' = Some cs"
      "length cs = 36" "cs ! 28 = [0x09AC]"
      "map_of (groups short_roman) ''consonants'' = Some vs" "length vs = 23"
    using bengali_consonants short_roman_consonants by blast
  then show ?thesis by (simp add: beng_short_ba)
qed

text \<open>
  Claim C8, as the code has it. The construction is a total function: it raises nothing.
  \<^item> Every entry \<open>k \<mapsto> v\<close> of every sub-map is a positional pair: there are a group of the
    source and the group of the same name of the destination, and an index \<open>i\<close> below
    both lengths, with \<open>k\<close> and \<open>v\<close> the characters at \<open>i\<close>. So a position beyond the
    shorter length contributes nothing.
  \<^item> Every position below both lengths of a group that both schemes have is stored: its
    source character is a key of the sub-map the name of the group selects (\<open>marks\<close>,
    \<open>virama\<close> or \<open>other\<close>), and of \<open>consonants\<close> too for a group of consonants. For
    \<open>virama\<close>, which is assigned and not merged, this needs the group names of the source
    to be distinct, as the keys of a dictionary are.
  \<^item> The dictionary of one pairing has as keys the first \<open>min (length ks) (length vs)\<close>
    characters of the source group, and maps the character at a paired position to the
    character at the same position of the destination group, unless the source character
    occurs again at a later paired position.
\<close>

theorem pairing_stops_at_shorter_group:
  assumes "sm = SchemeMap_init from_scheme to_scheme"
  shows
    "(\<forall>k v. marks sm k = Some v \<or> virama sm k = Some v \<or> consonants sm k = Some v \<or>
            other sm k = Some v \<longrightarrow>
        (\<exists>grp ks vs i. (grp, ks) \<in> set (groups from_scheme) \<and>
            map_of (groups to_scheme) grp = Some vs \<and>
            i < length ks \<and> i < length vs \<and> k = ks ! i \<and> v = vs ! i)) \<and>
     (\<forall>grp ks vs i. (grp, ks) \<in> set (groups from_scheme) \<and>
            map_of (groups to_scheme) grp = Some vs \<and> i < length ks \<and> i < length vs \<and>
            (grp = ''virama'' \<longrightarrow> distinct (map fst (groups from_scheme))) \<longrightarrow>
        ks ! i \<in> dom (if endswith grp ''marks'' then marks sm
                       else if grp = ''virama'' then virama sm else other sm) \<and>
        (\<not> endswith grp ''marks'' \<and> grp \<noteq> ''virama'' \<and> endswith grp ''consonants'' \<longrightarrow>
           ks ! i \<in> dom (consonants sm))) \<and>
     (\<forall>(ks :: ustring list) (vs :: ustring list).
        dom (dict_of_pairs (zip ks vs)) = set (take (min (length ks) (length vs)) ks) \<and>
        (\<forall>i. i < length ks \<and> i < length vs \<and>
              (\<forall>j. i < j \<and> j < length ks \<and> j < length vs \<longrightarrow> ks ! j \<noteq> ks ! i) \<longrightarrow>
           dict_of_pairs (zip ks vs) (ks ! i) = Some (vs ! i)))"
proof (intro conjI allI impI)
  fix k v
  assume "marks sm k = Some v \<or> virama sm k = Some v \<or> consonants sm k = Some v \<or>
          other sm k = Some v"
  then show "\<exists>grp ks vs i. (grp, ks) \<in> set (groups from_scheme) \<and>
            map_of (groups to_scheme) grp = Some vs \<and>
            i < length ks \<and> i < length vs \<and> k = ks ! i \<and> v = vs ! i"
    unfolding assms by (rule entry_is_positional_pair)
next
  fix grp ks vs i
  assume a: "(grp, ks) \<in> set (groups from_scheme) \<and>
            map_of (groups to_scheme) grp = Some vs \<and> i < length ks \<and> i < length vs \<and>
            (grp = ''virama'' \<longrightarrow> distinct (map fst (groups from_scheme)))"
  then have g: "(grp, ks) \<in> set (groups from_scheme)"
    and t: "map_of (groups to_scheme) grp = Some vs"
    and i: "i < length ks" "i < length vs"
    and d: "grp = ''virama'' \<longrightarrow> distinct (map fst (groups from_scheme))"
    by simp_all
  show "ks ! i \<in> dom (if endswith grp ''marks'' then marks sm
                       else if grp = ''virama'' then virama sm else other sm)"
    unfolding assms using g t i d by (rule paired_position_stored(1))
  assume "\<not> endswith grp ''marks'' \<and> grp \<noteq> ''virama'' \<and> endswith grp ''consonants''"
  then have c: "\<not> endswith grp ''marks''" "grp \<noteq> ''virama''" "endswith grp ''consonants''"
    by simp_all
  show "ks ! i \<in> dom (consonants sm)"
    unfolding assms using g t i d c by (rule paired_position_stored(2))
next
  fix ks vs :: "ustring list"
  show "dom (dict_of_pairs (zip ks vs)) = set (take (min (length ks) (length vs)) ks)"
    by (rule dom_sub_map)
next
  fix ks vs :: "ustring list" and i
  assume "i < length ks \<and> i < length vs \<and>
              (\<forall>j. i < j \<and> j < length ks \<and> j < length vs \<longrightarrow> ks ! j \<noteq> ks ! i)"
  then show "dict_of_pairs (zip ks vs) (ks ! i) = Some (vs ! i)"
    by (intro sub_map_last_wins) simp_all
qed

text \<open>
  Bengali consonants paired with \<open>short_roman\<close>: the entry for U+09AC is a positional
  pair, the first consonant U+0995 is stored; and a pairing of three characters with two.
\<close>

theorem pairing_stops_at_shorter_group_witness:
  "consonants (SchemeMap_init BENGALI_scheme short_roman) [0x09AC] = Some [0x0062] \<and>
   (\<exists>grp ks vs i. (grp, ks) \<in> set (groups BENGALI_scheme) \<and>
       map_of (groups short_roman) grp = Some vs \<and>
       i < length ks \<and> i < length vs \<and> [0x09AC] = ks ! i \<and> [0x0062] = vs ! i) \<and>
   [0x0995] \<in> dom (other (SchemeMap_init BENGALI_scheme short_roman)) \<and>
   [0x0995] \<in> dom (consonants (SchemeMap_init BENGALI_scheme short_roman)) \<and>
   dom (dict_of_pairs (zip [[0x006B], [0x0078], [0x006B]] [[0x0061], [0x0062 :: nat]]))
     = {[0x006B], [0x0078 :: nat]} \<and>
   dict_of_pairs (zip [[0x006B], [0x0078], [0x006B]] [[0x0061], [0x0062 :: nat]]) [0x0078 :: nat]
     = Some [0x0062]"
proof -
  note T = pairing_stops_at_shorter_group [OF refl, of BENGALI_scheme short_roman]
  have e: "consonants (SchemeMap_init BENGALI_scheme short_roman) [0x09AC] = Some [0x0062]"
    by (rule beng_short_ba)
  have p1: "\<exists>grp ks vs i. (grp, ks) \<in> set (groups BENGALI_scheme) \<and>
       map_of (groups short_roman) grp = Some vs \<and>
       i < length ks \<and> i < length vs \<and> [0x09AC] = ks ! i \<and> [0x0062] = vs ! i"
    using T [THEN conjunct1, rule_format, of "[0x09AC]" "[0x0062]"] e by simp
  obtain cs vs where cs: "map_of (groups BENGALI_scheme) ''consonants'' = Some cs"
      "length cs = 36" "cs ! 0 = [0x0995]"
    and vs: "map_of (groups short_roman) ''consonants'' = Some vs" "length vs = 23"
    using bengali_consonants short_roman_consonants by blast
  have "(''consonants'', cs) \<in> set (groups BENGALI_scheme)"
    using cs(1) by (rule map_of_SomeD)
  with T [THEN conjunct2, THEN conjunct1, rule_format, of "''consonants''" cs vs 0] cs vs
  have p2: "[0x0995] \<in> dom (other (SchemeMap_init BENGALI_scheme short_roman)) \<and>
            [0x0995] \<in> dom (consonants (SchemeMap_init BENGALI_scheme short_roman))"
    by (simp add: endswith_def)
  let ?ks = "[[0x006B], [0x0078], [0x006B :: nat]]" and ?vs = "[[0x0061], [0x0062 :: nat]]"
  note D = T [THEN conjunct2, THEN conjunct2, rule_format, of ?ks ?vs]
  have p3: "dom (dict_of_pairs (zip ?ks ?vs)) = {[0x006B], [0x0078 :: nat]}"
    using D [THEN conjunct1] by auto
  have "\<forall>j. 1 < j \<and> j < length ?ks \<and> j < length ?vs \<longrightarrow> ?ks ! j \<noteq> ?ks ! 1"
    by simp
  with D [THEN conjunct2, rule_format, of 1]
  have p4: "dict_of_pairs (zip ?ks ?vs) [0x0078] = Some [0x0062]"
    by simp
  from e p1 p2 p3 p4 show ?thesis by blast
qed

section \<open>The flag of the scan\<close>

lemma brahmic_loop_segmental:
  assumes "\<not> to_roman sm" and "\<not> snd st"
  shows "brahmic_loop sm data st =
           (fst st @ map (\<lambda>L. case marks sm [L] of Some m \<Rightarrow> m
                              | None \<Rightarrow> (case virama sm [L] of Some v \<Rightarrow> v
                              | None \<Rightarrow> dict_get (other sm) [L] [L])) data, False)"
  using assms(2)
proof (induction data arbitrary: st)
  case Nil
  then show ?case by (cases st) simp
next
  case (Cons L data)
  have "\<not> snd (brahmic_step sm st L)"
    using assms(1) by (simp add: brahmic_step_flag)
  from Cons.IH [OF this] Cons.prems show ?case
    by (simp add: brahmic_step_def Let_def split: option.splits)
qed

lemma deva_beng_ka:
  "marks (SchemeMap_init DEVANAGARI_scheme BENGALI_scheme) [0x0915] = None"
  "virama (SchemeMap_init DEVANAGARI_scheme BENGALI_scheme) [0x0915] = None"
  "other (SchemeMap_init DEVANAGARI_scheme BENGALI_scheme) [0x0915] = Some [0x0995]"
  "consonants (SchemeMap_init DEVANAGARI_scheme BENGALI_scheme) [0x0915] = Some [0x0995]"
  unfolding DEVANAGARI_scheme_def BENGALI_scheme_def SchemeMap_init_six SchemeMap.select_convs
    dict_of_pairs_eq
  by (simp_all add: map_add_def)

text \<open>
  Claim C9. After the scan has processed a character \<open>L\<close>, whatever came before, the flag
  \<^verbatim>\<open>had_consonant\<close> holds exactly if the destination is romanized and \<open>L\<close> is a key of
  \<open>consonants\<close>. When the destination is not romanized, the flag is false after every
  prefix of the input, and the output is the concatenation of the mapped forms of the
  characters (from \<open>marks\<close>, else \<open>virama\<close>, else \<open>other\<close> with the character itself as
  default): no \<^verbatim>\<open>a\<close> is inserted.
\<close>

theorem pending_implicit_vowel_flag:
  "snd (brahmic_loop sm (data @ [L]) st) = (to_roman sm \<and> consonants sm [L] \<noteq> None) \<and>
   (\<not> to_roman sm \<longrightarrow>
      \<not> snd (brahmic_loop sm (take n data) ([], False)) \<and>
      brahmic data sm =
        concat (map (\<lambda>L. case marks sm [L] of Some m \<Rightarrow> m
                          | None \<Rightarrow> (case virama sm [L] of Some v \<Rightarrow> v
                          | None \<Rightarrow> dict_get (other sm) [L] [L])) data))"
proof (intro conjI impI)
  show "snd (brahmic_loop sm (data @ [L]) st) = (to_roman sm \<and> consonants sm [L] \<noteq> None)"
    by (simp only: brahmic_loop_snoc brahmic_step_flag)
next
  assume "\<not> to_roman sm"
  then show "\<not> snd (brahmic_loop sm (take n data) ([], False))"
    by (simp add: brahmic_loop_segmental)
next
  assume "\<not> to_roman sm"
  then show "brahmic data sm =
        concat (map (\<lambda>L. case marks sm [L] of Some m \<Rightarrow> m
                          | None \<Rightarrow> (case virama sm [L] of Some v \<Rightarrow> v
                          | None \<Rightarrow> dict_get (other sm) [L] [L])) data)"
    by (simp add: brahmic_def brahmic_loop_segmental)
qed

text \<open>
  From Devanagari to IAST the flag is set after U+0915 and clear after the virama; from
  Devanagari to Bengali it stays clear, and U+0915 U+0915 becomes U+0995 U+0995.
\<close>

theorem pending_implicit_vowel_flag_witness:
  "snd (brahmic_loop (SchemeMap_init DEVANAGARI_scheme IAST_scheme) ([0x0915, 0x094D] @ [0x0915])
          ([], False)) \<and>
   \<not> snd (brahmic_loop (SchemeMap_init DEVANAGARI_scheme IAST_scheme) ([0x0915] @ [0x094D])
          ([], False)) \<and>
   \<not> to_roman (SchemeMap_init DEVANAGARI_scheme BENGALI_scheme) \<and>
   \<not> snd (brahmic_loop (SchemeMap_init DEVANAGARI_scheme BENGALI_scheme)
          (take 1 [0x0915, 0x0915]) ([], False)) \<and>
   brahmic [0x0915, 0x0915] (SchemeMap_init DEVANAGARI_scheme BENGALI_scheme) = [0x0995, 0x0995]"
  using pending_implicit_vowel_flag
      [of "SchemeMap_init DEVANAGARI_scheme IAST_scheme" "[0x0915, 0x094D]" "0x0915" "([], False)"]
    pending_implicit_vowel_flag
      [of "SchemeMap_init DEVANAGARI_scheme IAST_scheme" "[0x0915]" "0x094D" "([], False)"]
    pending_implicit_vowel_flag
      [of "SchemeMap_init DEVANAGARI_scheme BENGALI_scheme" "[0x0915, 0x0915]" _ _ 1]
  by (simp add: is_roman_catalogue deva_iast_ka deva_iast_virama deva_beng_ka dict_get_def)


section \<open>Keys of several code points\<close>

lemma brahmic_step_agree:
  assumes "marks sm [L] = marks sm' [L]" and "virama sm [L] = virama sm' [L]"
    and "consonants sm [L] = consonants sm' [L]" and "other sm [L] = other sm' [L]"
    and "to_roman sm = to_roman sm'"
  shows "brahmic_step sm st L = brahmic_step sm' st L"
  unfolding brahmic_step_def dict_get_def assms by (rule refl)

lemma deva_iast_ja:
  "marks (SchemeMap_init DEVANAGARI_scheme IAST_scheme) [0x091C] = None"
  "virama (SchemeMap_init DEVANAGARI_scheme IAST_scheme) [0x091C] = None"
  "consonants (SchemeMap_init DEVANAGARI_scheme IAST_scheme) [0x091C] = Some [0x006A]"
  "other (SchemeMap_init DEVANAGARI_scheme IAST_scheme) [0x091C] = Some [0x006A]"
  unfolding DEVANAGARI_scheme_def IAST_scheme_def SchemeMap_init_six SchemeMap.select_convs
    dict_of_pairs_eq
  by (simp_all add: map_add_def)

lemma deva_iast_nya:
  "marks (SchemeMap_init DEVANAGARI_scheme IAST_scheme) [0x091E] = None"
  "virama (SchemeMap_init DEVANAGARI_scheme IAST_scheme) [0x091E] = None"
  "consonants (SchemeMap_init DEVANAGARI_scheme IAST_scheme) [0x091E] = Some [0x00F1]"
  "other (SchemeMap_init DEVANAGARI_scheme IAST_scheme) [0x091E] = Some [0x00F1]"
  unfolding DEVANAGARI_scheme_def IAST_scheme_def SchemeMap_init_six SchemeMap.select_convs
    dict_of_pairs_eq
  by (simp_all add: map_add_def)

lemma deva_iast_jna:
  "consonants (SchemeMap_init DEVANAGARI_scheme IAST_scheme) [0x091C, 0x094D, 0x091E]
     = Some [0x006A, 0x00F1]"
  unfolding DEVANAGARI_scheme_def IAST_scheme_def SchemeMap_init_six SchemeMap.select_convs
    dict_of_pairs_eq
  by (simp_all add: map_add_def)

text \<open>
  Claim C10. The scan looks up one-element strings only, so its result depends on the
  entries of the four sub-maps whose key is a single code point and on nothing else: two
  scheme maps that agree on those keys (and on \<open>to_roman\<close>) give the same scan and the
  same output. An entry whose key is a cluster of several code points is never used.
\<close>

theorem clusters_never_matched:
  assumes "\<forall>c. marks sm [c] = marks sm' [c]" and "\<forall>c. virama sm [c] = virama sm' [c]"
    and "\<forall>c. consonants sm [c] = consonants sm' [c]" and "\<forall>c. other sm [c] = other sm' [c]"
    and "to_roman sm = to_roman sm'"
  shows "brahmic_loop sm data st = brahmic_loop sm' data st \<and> brahmic data sm = brahmic data sm'"
proof -
  have "brahmic_loop sm data st = brahmic_loop sm' data st" for st
  proof (induction data arbitrary: st)
    case Nil
    show ?case by simp
  next
    case (Cons L data)
    have "brahmic_step sm st L = brahmic_step sm' st L"
      using assms by (intro brahmic_step_agree) simp_all
    then show ?case using Cons.IH by simp
  qed
  then show ?thesis by (simp add: brahmic_def)
qed

text \<open>
  The map from Devanagari to IAST has entries for the clusters U+0915 U+094D U+0937 and
  U+091C U+094D U+091E. The scan of such a cluster appends three pieces, the forms of the
  consonant, of the virama (empty) and of the second consonant, and it does the same on
  the map without the two cluster entries.
\<close>

theorem clusters_never_matched_witness:
  "consonants (SchemeMap_init DEVANAGARI_scheme IAST_scheme) [0x0915, 0x094D, 0x0937]
     = Some [0x006B, 0x1E63] \<and>
   consonants (SchemeMap_init DEVANAGARI_scheme IAST_scheme) [0x091C, 0x094D, 0x091E]
     = Some [0x006A, 0x00F1] \<and>
   brahmic_loop (SchemeMap_init DEVANAGARI_scheme IAST_scheme) [0x0915, 0x094D, 0x0937] ([], False)
     = ([[0x006B], [], [0x1E63]], True) \<and>
   brahmic_loop (SchemeMap_init DEVANAGARI_scheme IAST_scheme) [0x091C, 0x094D, 0x091E] ([], False)
     = ([[0x006A], [], [0x00F1]], True) \<and>
   brahmic_loop
     ((SchemeMap_init DEVANAGARI_scheme IAST_scheme)
        \<lparr>consonants := (consonants (SchemeMap_init DEVANAGARI_scheme IAST_scheme))
            ([0x0915, 0x094D, 0x0937] := None, [0x091C, 0x094D, 0x091E] := None),
         other := (other (SchemeMap_init DEVANAGARI_scheme IAST_scheme))
            ([0x0915, 0x094D, 0x0937] := None, [0x091C, 0x094D, 0x091E] := None)\<rparr>)
     [0x0915, 0x094D, 0x0937] ([], False)
     = ([[0x006B], [], [0x1E63]], True)"
  using clusters_never_matched
    [of "SchemeMap_init DEVANAGARI_scheme IAST_scheme"
        "(SchemeMap_init DEVANAGARI_scheme IAST_scheme)
           \<lparr>consonants := (consonants (SchemeMap_init DEVANAGARI_scheme IAST_scheme))
               ([0x0915, 0x094D, 0x0937] := None, [0x091C, 0x094D, 0x091E] := None),
            other := (other (SchemeMap_init DEVANAGARI_scheme IAST_scheme))
               ([0x0915, 0x094D, 0x0937] := None, [0x091C, 0x094D, 0x091E] := None)\<rparr>"
        "[0x0915, 0x094D, 0x0937]" "([], False)"]
  by (simp add: is_roman_catalogue deva_iast_ka deva_iast_ssa deva_iast_virama deva_iast_ksa
      deva_iast_ja deva_iast_nya deva_iast_jna brahmic_step_def dict_get_def)

end
